theory Spec2Isabelle
  imports Complex_Main
begin

section \<open>Employee management: attendance aggregation and salary computation\<close>

text \<open>
  A shallow embedding of \<^verbatim>\<open>nownn.py\<close>: the storage helpers, the calendar utilities, the
  month aggregation and salary formula of \<^verbatim>\<open>SalaryTab\<close>, the duplicate check of
  \<^verbatim>\<open>EmployeesTab.on_save_new\<close> and the merge of \<^verbatim>\<open>AttendanceTab.on_load\<close>.

  Conventions of the model.
  \<^item> Python floats are idealised as \<^typ>\<open>real\<close>: rounding, infinities and NaN are not
    modelled. Counters that start at 0 and are only incremented are \<^typ>\<open>nat\<close>; the
    year and month handed to the calendar functions are \<^typ>\<open>int\<close>.
  \<^item> A string is a \<^typ>\<open>string\<close>, a character being a code point below 256.
    Whitespace is Python's on that range; digits and letter case are the ASCII ones.
  \<^item> Tk widgets and message boxes are not modelled: a handler takes the values read from
    its widgets as arguments and returns what it reports together with the new state.
  \<^item> An exception is a value: a function that can raise returns \<open>error + 'a\<close>.
\<close>

subsection \<open>JSON values and Python built-ins\<close>

text \<open>
  The scalar JSON values that occur as fields of the stored records: \<^verbatim>\<open>null\<close>, a number,
  a string. A record is a Python \<^verbatim>\<open>dict\<close> with string keys.
\<close>

datatype pyval = PNone | PNum real | PStr string

type_synonym pydict = "string \<rightharpoonup> pyval"

datatype error =
    ValueError | TypeError | KeyError | AttributeError | JSONDecodeError

text \<open>\<^verbatim>\<open>r.get(k, default)\<close>\<close>

definition dict_get :: "pydict \<Rightarrow> string \<Rightarrow> pyval \<Rightarrow> pyval" where
  "dict_get r k dflt = (case r k of None \<Rightarrow> dflt | Some v \<Rightarrow> v)"

text \<open>Python truthiness, as used by \<^verbatim>\<open>x or "A"\<close> and \<^verbatim>\<open>x and ...\<close>.\<close>

fun truthy :: "pyval \<Rightarrow> bool" where
  "truthy PNone = False"
| "truthy (PNum x) = (x \<noteq> 0)"
| "truthy (PStr s) = (s \<noteq> [])"

text \<open>
  \<^verbatim>\<open>float(v)\<close>: a number is itself, \<^verbatim>\<open>None\<close> raises TypeError, a string is parsed.
  The grammar of Python's string-to-float conversion is a parameter \<open>pf\<close> of the model
  (\<open>None\<close> where the conversion raises ValueError).
\<close>

fun py_float :: "(string \<Rightarrow> real option) \<Rightarrow> pyval \<Rightarrow> error + real" where
  "py_float pf PNone = Inl TypeError"
| "py_float pf (PNum x) = Inr x"
| "py_float pf (PStr s) = (case pf s of None \<Rightarrow> Inl ValueError | Some x \<Rightarrow> Inr x)"

text \<open>
  \<^verbatim>\<open>str.upper\<close>, \<^verbatim>\<open>str.startswith\<close>, \<^verbatim>\<open>str.strip\<close>, \<^verbatim>\<open>str.isdigit\<close>. The
  whitespace of \<^verbatim>\<open>str.strip\<close> and of \<^verbatim>\<open>\s\<close> in a pattern is that of \<^verbatim>\<open>str.isspace\<close>:
  the codes 9 to 13, 28 to 32, 133 (U+0085) and 160 (U+00A0).
\<close>

definition upper_char :: "char \<Rightarrow> char" where
  "upper_char c =
     (if 97 \<le> (of_char c :: nat) \<and> (of_char c :: nat) \<le> 122
      then char_of ((of_char c :: nat) - 32) else c)"

definition upper :: "string \<Rightarrow> string" where
  "upper s = map upper_char s"

definition startswith :: "string \<Rightarrow> string \<Rightarrow> bool" where
  "startswith s p = (take (length p) s = p)"

definition is_space :: "char \<Rightarrow> bool" where
  "is_space c = ((of_char c :: nat) \<in> {9, 10, 11, 12, 13, 28, 29, 30, 31, 32, 133, 160})"

definition strip :: "string \<Rightarrow> string" where
  "strip s = rev (dropWhile is_space (rev (dropWhile is_space s)))"

definition is_digit :: "char \<Rightarrow> bool" where
  "is_digit c = (48 \<le> (of_char c :: nat) \<and> (of_char c :: nat) \<le> 57)"

definition isdigit :: "string \<Rightarrow> bool" where
  "isdigit s = (s \<noteq> [] \<and> list_all is_digit s)"

text \<open>
  \<^verbatim>\<open>v.upper()\<close> on a JSON value: only a string has the method.
\<close>

fun py_upper :: "pyval \<Rightarrow> error + string" where
  "py_upper (PStr s) = Inr (upper s)"
| "py_upper v = Inl AttributeError"

subsection \<open>Calendar: \<^verbatim>\<open>datetime.date\<close>, \<^verbatim>\<open>calendar.monthrange\<close>, formatting and parsing\<close>

record date =
  year :: int
  month :: int
  day :: int

definition is_leap :: "int \<Rightarrow> bool" where
  "is_leap y = (y mod 4 = 0 \<and> (if y mod 100 = 0 then y mod 400 = 0 else True))"

definition mdays :: "int list" where
  "mdays = [0, 31, 28, 31, 30, 31, 30, 31, 31, 30, 31, 30, 31]"

text \<open>The number of days of a month (second component of \<^verbatim>\<open>calendar.monthrange\<close>).\<close>

definition days_in_month :: "int \<Rightarrow> int \<Rightarrow> int" where
  "days_in_month y m = (if m = 2 \<and> is_leap y then 29 else mdays ! nat m)"

text \<open>The constructor \<^verbatim>\<open>date(y, m, d)\<close> raises ValueError outside the calendar.\<close>

definition mk_date :: "int \<Rightarrow> int \<Rightarrow> int \<Rightarrow> error + date" where
  "mk_date y m d =
     (if 1 \<le> y \<and> y \<le> 9999 \<and> 1 \<le> m \<and> m \<le> 12 \<and> 1 \<le> d \<and> d \<le> days_in_month y m
      then Inr \<lparr>year = y, month = m, day = d\<rparr> else Inl ValueError)"

text \<open>
  \<^verbatim>\<open>date.weekday()\<close> is \<^verbatim>\<open>(toordinal() + 6) % 7\<close>, Monday being 0, with the proleptic
  Gregorian ordinal of the standard library.
\<close>

definition days_before_year :: "int \<Rightarrow> int" where
  "days_before_year y = (y - 1) * 365 + (y - 1) div 4 - (y - 1) div 100 + (y - 1) div 400"

definition days_before_month :: "int \<Rightarrow> int \<Rightarrow> int" where
  "days_before_month y m =
     sum_list (take (nat m) mdays) + (if m > 2 \<and> is_leap y then 1 else 0)"

definition toordinal :: "date \<Rightarrow> int" where
  "toordinal d = days_before_year (year d) + days_before_month (year d) (month d) + day d"

definition weekday :: "date \<Rightarrow> int" where
  "weekday d = (toordinal d + 6) mod 7"

text \<open>Decimal digits: \<open>digits k n\<close> are the \<open>k\<close> low digits of \<open>n\<close>, zero padded.\<close>

definition digit_char :: "nat \<Rightarrow> char" where
  "digit_char n = char_of (48 + n)"

definition digit_val :: "char \<Rightarrow> nat" where
  "digit_val c = of_char c - 48"

primrec digits :: "nat \<Rightarrow> nat \<Rightarrow> string" where
  "digits 0 n = []"
| "digits (Suc k) n = digits k (n div 10) @ [digit_char (n mod 10)]"

definition num_of :: "string \<Rightarrow> nat" where
  "num_of s = foldl (\<lambda>a c. 10 * a + digit_val c) 0 s"

text \<open>
  \<^verbatim>\<open>d.strftime("%Y-%m-%d")\<close>, the year padded to four digits. For a year from 1000,
  the range of the year field of the interface (1900 to 3000) included, this is what
  every platform prints. For a year below 1000 the padding of \<^verbatim>\<open>%Y\<close> depends on the
  C library and the Python version: where it is not padded, \<^verbatim>\<open>strptime\<close> rejects the
  string and the source raises where this model goes on. The property of the business
  days is stated for years from 1000.
\<close>

definition strftime_ymd :: "date \<Rightarrow> string" where
  "strftime_ymd d =
     digits 4 (nat (year d)) @ ''-'' @ digits 2 (nat (month d)) @ ''-'' @ digits 2 (nat (day d))"

text \<open>The shape \<^verbatim>\<open>\d{4}-\d{2}-\d{2}\<close>.\<close>

definition ymd_shape :: "string \<Rightarrow> bool" where
  "ymd_shape s =
     (length s = 10 \<and> list_all is_digit (take 4 s) \<and> s ! 4 = CHR ''-'' \<and>
      list_all is_digit (take 2 (drop 5 s)) \<and> s ! 7 = CHR ''-'' \<and>
      list_all is_digit (drop 8 s))"

text \<open>
  \<^verbatim>\<open>datetime.strptime(s, "%Y-%m-%d").date()\<close> on the fixed-width shape, the only one the
  program hands to it (strings made by \<open>strftime_ymd\<close>, or checked against \<^verbatim>\<open>DATE_RE\<close>
  first); anything else is a ValueError in the model.
\<close>

definition strptime_ymd :: "string \<Rightarrow> error + date" where
  "strptime_ymd s =
     (if ymd_shape s
      then mk_date (int (num_of (take 4 s))) (int (num_of (take 2 (drop 5 s))))
             (int (num_of (drop 8 s)))
      else Inl ValueError)"

text \<open>
  \<^verbatim>\<open>DATE_RE.match(s)\<close> for \<^verbatim>\<open>^\d{4}-\d{2}-\d{2}$\<close>: the \<^verbatim>\<open>$\<close> also matches before one
  trailing newline.
\<close>

definition DATE_RE_match :: "string \<Rightarrow> bool" where
  "DATE_RE_match s = (ymd_shape s \<or> (length s = 11 \<and> last s = CHR 0x0A \<and> ymd_shape (butlast s)))"

definition valid_date :: "string \<Rightarrow> bool" where
  "valid_date s =
     (if \<not> DATE_RE_match s then False
      else (case strptime_ymd s of Inl e \<Rightarrow> False | Inr d \<Rightarrow> True))"

text \<open>
  \<^verbatim>\<open>EMAIL_RE.match(s)\<close> for \<^verbatim>\<open>^[^@\s]+@[^@\s]+\.[^@\s]+$\<close>: a non-empty local part, one
  \<^verbatim>\<open>@\<close>, and a rest with a dot that is neither its first nor its last character, none
  of them containing \<^verbatim>\<open>@\<close> or whitespace.
\<close>

definition email_char :: "char \<Rightarrow> bool" where
  "email_char c = (c \<noteq> CHR ''@'' \<and> \<not> is_space c)"

definition email_core :: "string \<Rightarrow> bool" where
  "email_core s =
     (let a = takeWhile (\<lambda>c. c \<noteq> CHR ''@'') s;
          rest = drop 1 (dropWhile (\<lambda>c. c \<noteq> CHR ''@'') s)
      in a \<noteq> [] \<and> CHR ''@'' \<in> set s \<and> list_all email_char a \<and> list_all email_char rest \<and>
         CHR ''.'' \<in> set (butlast (tl rest)))"

definition EMAIL_RE_match :: "string \<Rightarrow> bool" where
  "EMAIL_RE_match s = (email_core s \<or> (s \<noteq> [] \<and> last s = CHR 0x0A \<and> email_core (butlast s)))"

text \<open>
  \<^verbatim>\<open>month_days_iter\<close>: the days of the month as strings. The source adds \<open>i\<close> days to
  the first of the month for \<open>i\<close> below the length of the month, which stays in the month.
\<close>

definition month_days_iter :: "int \<Rightarrow> int \<Rightarrow> error + string list" where
  "month_days_iter y m =
     (case mk_date y m 1 of
        Inl e \<Rightarrow> Inl e
      | Inr d1 \<Rightarrow>
          Inr (map (\<lambda>i. strftime_ymd (d1\<lparr>day := day d1 + int i\<rparr>))
                 [0..<nat (days_in_month y m)]))"

text \<open>The loop of \<^verbatim>\<open>business_days_in_month\<close>, \<open>cnt\<close> being its counter.\<close>

fun count_business :: "string list \<Rightarrow> nat \<Rightarrow> error + nat" where
  "count_business [] cnt = Inr cnt"
| "count_business (d # ds) cnt =
     (case strptime_ymd d of
        Inl e \<Rightarrow> Inl e
      | Inr dt \<Rightarrow> count_business ds (if weekday dt < 5 then cnt + 1 else cnt))"

definition business_days_in_month :: "int \<Rightarrow> int \<Rightarrow> error + nat" where
  "business_days_in_month y m =
     (case month_days_iter y m of Inl e \<Rightarrow> Inl e | Inr ds \<Rightarrow> count_business ds 0)"

subsection \<open>Storage helpers\<close>

text \<open>
  The file system is a map from paths to file contents. As far as the program is
  concerned a file either fails to load as JSON or holds a list of records; what
  \<^verbatim>\<open>json.dump\<close> writes, \<^verbatim>\<open>json.load\<close> reads back as the same value (serialisation
  itself is not modelled). Directories are not modelled: \<^verbatim>\<open>os.makedirs\<close> with
  \<^verbatim>\<open>exist_ok=True\<close> only creates them. Paths are POSIX paths, compared as strings.
\<close>

datatype content = Unparsable | Parsed "pydict list"

type_synonym files = "string \<rightharpoonup> content"

text \<open>\<^verbatim>\<open>os.path.join(a, b)\<close> for a non-empty \<open>a\<close> without trailing separator.\<close>

definition path_join :: "string \<Rightarrow> string \<Rightarrow> string" where
  "path_join a b = (if startswith b ''/'' then b else a @ ''/'' @ b)"

definition DATA_DIR :: string where
  "DATA_DIR = ''data''"

definition EMP_FILE :: string where
  "EMP_FILE = path_join DATA_DIR ''employees.json''"

definition ATT_DIR :: string where
  "ATT_DIR = path_join DATA_DIR ''attendance''"

definition ensure_dirs :: "files \<Rightarrow> files" where
  "ensure_dirs fs = (if fs EMP_FILE = None then fs(EMP_FILE \<mapsto> Parsed []) else fs)"

text \<open>
  \<^verbatim>\<open>load_employees\<close>: any exception of opening or parsing is caught and gives \<^verbatim>\<open>[]\<close>.
  The result is the loaded roster and the file system after \<^verbatim>\<open>ensure_dirs\<close>.
\<close>

definition load_employees :: "files \<Rightarrow> pydict list \<times> files" where
  "load_employees fs =
     (let fs' = ensure_dirs fs
      in (case fs' EMP_FILE of
            None \<Rightarrow> []
          | Some Unparsable \<Rightarrow> []
          | Some (Parsed rs) \<Rightarrow> rs, fs'))"

definition save_employees :: "files \<Rightarrow> pydict list \<Rightarrow> files" where
  "save_employees fs records = (ensure_dirs fs)(EMP_FILE \<mapsto> Parsed records)"

definition attendance_path :: "string \<Rightarrow> string" where
  "attendance_path day_str = path_join ATT_DIR (day_str @ ''.json'')"

text \<open>
  \<^verbatim>\<open>load_attendance\<close>: a missing file gives \<^verbatim>\<open>[]\<close>; \<^verbatim>\<open>json.load\<close> is not guarded, so a
  file that does not parse raises.
\<close>

definition load_attendance :: "files \<Rightarrow> string \<Rightarrow> (error + pydict list) \<times> files" where
  "load_attendance fs day_str =
     (let fs' = ensure_dirs fs; path = attendance_path day_str
      in (case fs' path of
            None \<Rightarrow> Inr []
          | Some Unparsable \<Rightarrow> Inl JSONDecodeError
          | Some (Parsed rs) \<Rightarrow> Inr rs, fs'))"

definition save_attendance :: "files \<Rightarrow> string \<Rightarrow> pydict list \<Rightarrow> files" where
  "save_attendance fs day_str rows = (ensure_dirs fs)(attendance_path day_str \<mapsto> Parsed rows)"

subsection \<open>Month aggregation: \<^verbatim>\<open>SalaryTab._gather_month_attendance\<close>\<close>

record stats =
  present :: nat
  absent :: nat
  ot :: real

type_synonym agg = "pyval \<rightharpoonup> stats"

definition zero_stats :: stats where
  "zero_stats = \<lparr>present = 0, absent = 0, ot = 0\<rparr>"

text \<open>
  The body of the inner loop, for one record \<open>r\<close> and the dictionary \<open>d\<close> built so far;
  \<open>s1\<close> is \<^verbatim>\<open>d[emp]\<close> after the initialisation of a new key. A status that is a non-zero
  number has no \<^verbatim>\<open>upper\<close> method: the source raises there. The bare \<^verbatim>\<open>except\<close>
  swallows every failure of \<^verbatim>\<open>float\<close>.
\<close>

definition add_record :: "(string \<Rightarrow> real option) \<Rightarrow> agg \<Rightarrow> pydict \<Rightarrow> error + agg" where
  "add_record pf d r =
     (let emp = dict_get r ''emp_id'' (PStr []);
          s1 = (case d emp of None \<Rightarrow> zero_stats | Some s \<Rightarrow> s);
          sv = dict_get r ''status'' (PStr ''A'')
      in case py_upper (if truthy sv then sv else PStr ''A'') of
           Inl e \<Rightarrow> Inl e
         | Inr status \<Rightarrow>
             (let s2 = (if startswith status ''P''
                        then s1\<lparr>present := present s1 + 1\<rparr>
                        else s1\<lparr>absent := absent s1 + 1\<rparr>);
                  s3 = (case py_float pf (dict_get r ''overtime'' (PNum 0)) of
                          Inl e \<Rightarrow> s2
                        | Inr x \<Rightarrow> s2\<lparr>ot := ot s2 + x\<rparr>)
              in Inr (d(emp \<mapsto> s3))))"

fun add_rows :: "(string \<Rightarrow> real option) \<Rightarrow> agg \<Rightarrow> pydict list \<Rightarrow> error + agg" where
  "add_rows pf d [] = Inr d"
| "add_rows pf d (r # rs) =
     (case add_record pf d r of Inl e \<Rightarrow> Inl e | Inr d' \<Rightarrow> add_rows pf d' rs)"

text \<open>The outer loop over the days; \<^verbatim>\<open>if not rows: continue\<close> skips an empty day.\<close>

fun gather_days ::
  "(string \<Rightarrow> real option) \<Rightarrow> files \<Rightarrow> string list \<Rightarrow> agg \<Rightarrow> (error + agg) \<times> files" where
  "gather_days pf fs [] d = (Inr d, fs)"
| "gather_days pf fs (dstr # ds) d =
     (case load_attendance fs dstr of
        (Inl e, fs') \<Rightarrow> (Inl e, fs')
      | (Inr rows, fs') \<Rightarrow>
          (if rows = [] then gather_days pf fs' ds d
           else (case add_rows pf d rows of
                   Inl e \<Rightarrow> (Inl e, fs')
                 | Inr d' \<Rightarrow> gather_days pf fs' ds d')))"

definition gather_month_attendance ::
  "(string \<Rightarrow> real option) \<Rightarrow> files \<Rightarrow> int \<Rightarrow> int \<Rightarrow> (error + agg) \<times> files" where
  "gather_month_attendance pf fs y m =
     (case month_days_iter y m of
        Inl e \<Rightarrow> (Inl e, fs)
      | Inr ds \<Rightarrow> gather_days pf fs ds Map.empty)"

subsection \<open>Salary computation: \<^verbatim>\<open>SalaryTab.on_calculate\<close>\<close>

text \<open>
  \<^verbatim>\<open>per_hour = base / 176.0 if base else 0.0\<close>: the test is the truthiness of the float,
  that is \<open>base \<noteq> 0\<close>.
\<close>

definition per_hour :: "real \<Rightarrow> real" where
  "per_hour base = (if base \<noteq> 0 then base / 176 else 0)"

text \<open>\<^verbatim>\<open>prorated = base * (present / float(working_days) if working_days > 0 else 0.0)\<close>\<close>

definition prorated :: "real \<Rightarrow> nat \<Rightarrow> nat \<Rightarrow> real" where
  "prorated base p w = base * (if w > 0 then real p / real w else 0)"

text \<open>\<^verbatim>\<open>ot_pay = per_hour * ot_hours\<close>\<close>

definition ot_pay :: "real \<Rightarrow> real \<Rightarrow> real" where
  "ot_pay base ot_hours = per_hour base * ot_hours"

text \<open>\<^verbatim>\<open>net = max(0.0, prorated + ot_pay)\<close>\<close>

definition net_pay :: "real \<Rightarrow> nat \<Rightarrow> nat \<Rightarrow> real \<Rightarrow> real" where
  "net_pay base w p ot_hours = max 0 (prorated base p w + ot_pay base ot_hours)"

record salary_row =
  Emp_Id :: pyval
  Name :: pyval
  Month :: string
  Base_Salary :: real
  Working_Days :: nat
  Present :: nat
  Absent :: nat
  Overtime_Hours :: real
  Net_Pay :: real

text \<open>
  The body of the loop over the roster, after the filter: \<^verbatim>\<open>float\<close> of the base salary
  is not guarded and can raise.
\<close>

definition calc_row ::
  "(string \<Rightarrow> real option) \<Rightarrow> agg \<Rightarrow> nat \<Rightarrow> string \<Rightarrow> pydict \<Rightarrow> error + salary_row" where
  "calc_row pf att w month_str e =
     (let emp_id = dict_get e ''emp_id'' (PStr [])
      in case py_float pf (dict_get e ''base_salary'' (PNum 0)) of
           Inl err \<Rightarrow> Inl err
         | Inr base \<Rightarrow>
             (let st = (case att emp_id of None \<Rightarrow> zero_stats | Some s \<Rightarrow> s)
              in Inr \<lparr>Emp_Id = emp_id, Name = dict_get e ''name'' (PStr []),
                      Month = month_str, Base_Salary = base, Working_Days = w,
                      Present = present st, Absent = absent st, Overtime_Hours = ot st,
                      Net_Pay = net_pay base w (present st) (ot st)\<rparr>))"

fun calc_rows ::
  "(string \<Rightarrow> real option) \<Rightarrow> agg \<Rightarrow> nat \<Rightarrow> string \<Rightarrow> string \<Rightarrow> pydict list \<Rightarrow>
     error + salary_row list" where
  "calc_rows pf att w month_str emp_filter [] = Inr []"
| "calc_rows pf att w month_str emp_filter (e # es) =
     (if emp_filter \<noteq> [] \<and> dict_get e ''emp_id'' (PStr []) \<noteq> PStr emp_filter
      then calc_rows pf att w month_str emp_filter es
      else (case calc_row pf att w month_str e of
              Inl err \<Rightarrow> Inl err
            | Inr row \<Rightarrow>
                (case calc_rows pf att w month_str emp_filter es of
                   Inl err \<Rightarrow> Inl err
                 | Inr rows \<Rightarrow> Inr (row # rows))))"

text \<open>
  \<^verbatim>\<open>on_calculate\<close>, from the year and month index read from the widgets and the content
  \<open>emp_var\<close> of the employee filter. It returns the result rows (or the exception raised)
  and the file system.
\<close>

definition on_calculate ::
  "(string \<Rightarrow> real option) \<Rightarrow> files \<Rightarrow> int \<Rightarrow> int \<Rightarrow> string \<Rightarrow>
     (error + salary_row list) \<times> files" where
  "on_calculate pf fs y m emp_var =
     (let month_str = digits 4 (nat y) @ ''-'' @ digits 2 (nat m)
      in case business_days_in_month y m of
           Inl e \<Rightarrow> (Inl e, fs)
         | Inr working_days \<Rightarrow>
             (case gather_month_attendance pf fs y m of
                (Inl e, fs1) \<Rightarrow> (Inl e, fs1)
              | (Inr att, fs1) \<Rightarrow>
                  (case load_employees fs1 of
                     (emps, fs2) \<Rightarrow>
                       (calc_rows pf att working_days month_str (strip emp_var) emps, fs2))))"

subsection \<open>Adding an employee: \<^verbatim>\<open>EmployeesTab._read_form\<close> and \<^verbatim>\<open>on_save_new\<close>\<close>

text \<open>The \<^verbatim>\<open>StringVar\<close>s of the employee form.\<close>

record form =
  emp_id_var :: string
  name_var :: string
  dept_var :: string
  role_var :: string
  base_var :: string
  join_date_var :: string
  phone_var :: string
  email_var :: string

text \<open>What a handler reports: a message box (title, message) or an uncaught exception.\<close>

datatype outcome = ShowError string string | ShowInfo string string | Raised error

text \<open>\<^verbatim>\<open>r[k]\<close> raises KeyError on a missing key.\<close>

definition dict_index :: "pydict \<Rightarrow> string \<Rightarrow> error + pyval" where
  "dict_index r k = (case r k of None \<Rightarrow> Inl KeyError | Some v \<Rightarrow> Inr v)"

text \<open>
  \<^verbatim>\<open>_read_form\<close> builds the record from the stripped fields and validates it; \<open>Inl\<close>
  carries the message of the ValueError it raises.
\<close>

definition read_form :: "(string \<Rightarrow> real option) \<Rightarrow> form \<Rightarrow> string + pydict" where
  "read_form pf f =
     (let e = strip (emp_id_var f); n = strip (name_var f); b = strip (base_var f);
          j = strip (join_date_var f); p = strip (phone_var f); em = strip (email_var f);
          rec = [''emp_id'' \<mapsto> PStr e, ''name'' \<mapsto> PStr n,
                 ''department'' \<mapsto> PStr (strip (dept_var f)),
                 ''role'' \<mapsto> PStr (strip (role_var f)), ''base_salary'' \<mapsto> PStr b,
                 ''join_date'' \<mapsto> PStr j, ''phone'' \<mapsto> PStr p, ''email'' \<mapsto> PStr em]
      in if e = [] then Inl ''Employee ID is required.''
         else if \<not> isdigit e then Inl ''Employee ID must be numeric.''
         else if n = [] then Inl ''Name is required.''
         else if (case py_float pf (PStr b) of Inl err \<Rightarrow> True | Inr bs \<Rightarrow> bs < 0)
           then Inl ''Base Salary must be a positive number.''
         else if j \<noteq> [] \<and> \<not> valid_date j then Inl ''Join Date must be YYYY-MM-DD.''
         else if em \<noteq> [] \<and> \<not> EMAIL_RE_match em then Inl ''Email format is invalid.''
         else if p \<noteq> [] \<and> \<not> isdigit p then Inl ''Phone must contain digits only.''
         else Inr rec)"

text \<open>
  \<^verbatim>\<open>any(r["emp_id"] == rec["emp_id"] for r in self.records)\<close>: it stops at the first
  match, and a roster record without the key raises KeyError.
\<close>

fun any_same_emp_id :: "pydict list \<Rightarrow> pydict \<Rightarrow> error + bool" where
  "any_same_emp_id [] rec = Inr False"
| "any_same_emp_id (r # rs) rec =
     (case dict_index r ''emp_id'' of
        Inl e \<Rightarrow> Inl e
      | Inr a \<Rightarrow>
          (case dict_index rec ''emp_id'' of
             Inl e \<Rightarrow> Inl e
           | Inr b \<Rightarrow> if a = b then Inr True else any_same_emp_id rs rec))"

text \<open>
  \<^verbatim>\<open>on_save_new\<close> on the in-memory roster \<open>records\<close> and the file system; it returns
  what it reports and both after the call.
\<close>

definition on_save_new ::
  "(string \<Rightarrow> real option) \<Rightarrow> pydict list \<times> files \<Rightarrow> form \<Rightarrow> outcome \<times> pydict list \<times> files" where
  "on_save_new pf st f =
     (case st of (records, fs) \<Rightarrow>
       (case read_form pf f of
          Inl msg \<Rightarrow> (ShowError ''Validation'' msg, records, fs)
        | Inr rec \<Rightarrow>
            (case any_same_emp_id records rec of
               Inl e \<Rightarrow> (Raised e, records, fs)
             | Inr True \<Rightarrow> (ShowError ''Duplicate'' ''Employee ID already exists.'', records, fs)
             | Inr False \<Rightarrow>
                 (case dict_index rec ''base_salary'' of
                    Inl e \<Rightarrow> (Raised e, records, fs)
                  | Inr v \<Rightarrow>
                      (case py_float pf v of
                         Inl e \<Rightarrow> (Raised e, records, fs)
                       | Inr bs \<Rightarrow>
                           (let records' = records @ [rec(''base_salary'' \<mapsto> PNum bs)]
                            in (ShowInfo ''Saved'' ''Employee saved.'', records',
                                save_employees fs records')))))))"

text \<open>An add operation has failed when it reports an error or raises.\<close>

fun failed :: "outcome \<Rightarrow> bool" where
  "failed (ShowError t msg) = True"
| "failed (Raised e) = True"
| "failed (ShowInfo t msg) = False"

subsection \<open>Loading a day for editing: \<^verbatim>\<open>AttendanceTab.on_load\<close>\<close>

text \<open>
  The dictionary comprehension \<^verbatim>\<open>{r["emp_id"]: r for r in ...}\<close>: a later record
  replaces an earlier one with the same key.
\<close>

fun build_existing :: "pydict list \<Rightarrow> (pyval \<rightharpoonup> pydict) \<Rightarrow> error + (pyval \<rightharpoonup> pydict)" where
  "build_existing [] ex = Inr ex"
| "build_existing (r # rs) ex =
     (case dict_index r ''emp_id'' of
        Inl e \<Rightarrow> Inl e
      | Inr k \<Rightarrow> build_existing rs (ex(k \<mapsto> r)))"

text \<open>
  The row built for the roster entry \<open>e\<close>; \<open>host_ip\<close> is what \<^verbatim>\<open>get_host_ip()\<close> returns
  on the machine.
\<close>

definition merge_row :: "string \<Rightarrow> (pyval \<rightharpoonup> pydict) \<Rightarrow> pydict \<Rightarrow> pydict" where
  "merge_row host_ip existing e =
     (let emp_id = dict_get e ''emp_id'' (PStr []);
          saved = (case existing emp_id of None \<Rightarrow> Map.empty | Some r \<Rightarrow> r)
      in [''Emp_Id'' \<mapsto> emp_id,
          ''Name'' \<mapsto> dict_get e ''name'' (PStr []),
          ''Status (P/A)'' \<mapsto> dict_get saved ''status'' (PStr ''A''),
          ''IP'' \<mapsto> dict_get saved ''ip'' (PStr host_ip),
          ''Overtime Hours'' \<mapsto> dict_get saved ''overtime'' (PNum 0)])"

text \<open>
  \<^verbatim>\<open>on_load\<close> on the rows of the tab and the file system, \<open>date_var\<close> being the content
  of the date field.
\<close>

definition on_load ::
  "string \<Rightarrow> pydict list \<times> files \<Rightarrow> string \<Rightarrow> outcome \<times> pydict list \<times> files" where
  "on_load host_ip st date_var =
     (case st of (rows, fs) \<Rightarrow>
       (let dstr = strip date_var
        in if \<not> valid_date dstr
           then (ShowError ''Date'' ''Please enter a valid date in YYYY-MM-DD.'', rows, fs)
           else (case load_attendance fs dstr of
                   (Inl e, fs1) \<Rightarrow> (Raised e, rows, fs1)
                 | (Inr saved, fs1) \<Rightarrow>
                     (case build_existing saved Map.empty of
                        Inl e \<Rightarrow> (Raised e, rows, fs1)
                      | Inr existing \<Rightarrow>
                          (case load_employees fs1 of
                             (emps, fs2) \<Rightarrow>
                               (ShowInfo ''Loaded'' (''Attendance loaded for '' @ dstr @ ''.''),
                                map (merge_row host_ip existing) emps, fs2))))))"

subsection \<open>Notions used to state the properties\<close>

text \<open>
  The snapshot of a day as the aggregation sees it: the records of the day's file, none
  when there is no file.
\<close>

definition snapshot :: "files \<Rightarrow> string \<Rightarrow> pydict list" where
  "snapshot fs dstr =
     (case fs (attendance_path dstr) of
        None \<Rightarrow> [] | Some Unparsable \<Rightarrow> [] | Some (Parsed rs) \<Rightarrow> rs)"

definition month_records :: "files \<Rightarrow> string list \<Rightarrow> pydict list" where
  "month_records fs ds = concat (map (snapshot fs) ds)"

text \<open>The employee a record belongs to (\<^verbatim>\<open>r.get("emp_id", "")\<close>).\<close>

definition rec_emp :: "pydict \<Rightarrow> pyval" where
  "rec_emp r = dict_get r ''emp_id'' (PStr [])"

text \<open>The status of the record is a string that starts with \<^verbatim>\<open>P\<close> or \<^verbatim>\<open>p\<close>.\<close>

definition status_P :: "pydict \<Rightarrow> bool" where
  "status_P r =
     (case r ''status'' of
        Some (PStr (c # cs)) \<Rightarrow> c = CHR ''P'' \<or> c = CHR ''p''
      | _ \<Rightarrow> False)"

text \<open>
  The status of the record is well typed: a string, \<^verbatim>\<open>null\<close>, the number 0 or missing
  (on any other number the aggregation raises).
\<close>

definition status_ok :: "pydict \<Rightarrow> bool" where
  "status_ok r = (case r ''status'' of Some (PNum x) \<Rightarrow> x = 0 | _ \<Rightarrow> True)"

text \<open>The overtime a record contributes: its value as a float, 0 when \<^verbatim>\<open>float\<close> fails.\<close>

definition ot_value :: "(string \<Rightarrow> real option) \<Rightarrow> pydict \<Rightarrow> real" where
  "ot_value pf r =
     (case py_float pf (dict_get r ''overtime'' (PNum 0)) of Inl e \<Rightarrow> 0 | Inr x \<Rightarrow> x)"

text \<open>The totals of an employee over a list of records.\<close>

definition emp_stats :: "(string \<Rightarrow> real option) \<Rightarrow> pydict list \<Rightarrow> pyval \<Rightarrow> stats" where
  "emp_stats pf rs emp =
     \<lparr>present = length (filter (\<lambda>r. rec_emp r = emp \<and> status_P r) rs),
      absent = length (filter (\<lambda>r. rec_emp r = emp \<and> \<not> status_P r) rs),
      ot = sum_list (map (ot_value pf) (filter (\<lambda>r. rec_emp r = emp) rs))\<rparr>"

definition add_stats :: "stats \<Rightarrow> stats \<Rightarrow> stats" where
  "add_stats s t =
     \<lparr>present = present s + present t, absent = absent s + absent t, ot = ot s + ot t\<rparr>"

text \<open>The dictionary \<open>d\<close> after the records \<open>rs\<close> have been added to it.\<close>

definition merged :: "(string \<Rightarrow> real option) \<Rightarrow> agg \<Rightarrow> pydict list \<Rightarrow> agg" where
  "merged pf d rs =
     (\<lambda>emp. if emp \<in> rec_emp ` set rs
            then Some (add_stats (case d emp of None \<Rightarrow> zero_stats | Some s \<Rightarrow> s)
                         (emp_stats pf rs emp))
            else d emp)"

text \<open>The record saved last for an employee id in a day's snapshot.\<close>

definition saved_for :: "pydict list \<Rightarrow> pyval \<Rightarrow> pydict option" where
  "saved_for saved k = find (\<lambda>r. r ''emp_id'' = Some k) (rev saved)"

text \<open>
  The value whose \<^verbatim>\<open>upper\<close> the aggregation takes:
  \<^verbatim>\<open>r.get("status", "A") or "A"\<close>.
\<close>

definition status_arg :: "pydict \<Rightarrow> pyval" where
  "status_arg r = (if truthy (dict_get r ''status'' (PStr ''A''))
                   then dict_get r ''status'' (PStr ''A'') else PStr ''A'')"

text \<open>None of the files of the days \<open>ds\<close> fails to parse.\<close>

definition readable :: "files \<Rightarrow> string list \<Rightarrow> bool" where
  "readable fs ds = list_all (\<lambda>dstr. fs (attendance_path dstr) \<noteq> Some Unparsable) ds"

subsection \<open>A scenario for concrete evaluation\<close>

text \<open>
  A roster of three employees and two saved days of August 2025: Ann is present on
  both days, Bob is absent on the first with ten hours of overtime entered, Cy is in no
  snapshot. The float parser of the scenario knows one string.
\<close>

definition pf0 :: "string \<Rightarrow> real option" where
  "pf0 s = (if s = ''17600'' then Some 17600 else None)"

definition ann :: pydict where
  "ann = [''emp_id'' \<mapsto> PStr ''1'', ''name'' \<mapsto> PStr ''Ann'', ''base_salary'' \<mapsto> PNum 17600]"

definition bob :: pydict where
  "bob = [''emp_id'' \<mapsto> PStr ''2'', ''name'' \<mapsto> PStr ''Bob'', ''base_salary'' \<mapsto> PNum 17600]"

definition cy :: pydict where
  "cy = [''emp_id'' \<mapsto> PStr ''3'', ''name'' \<mapsto> PStr ''Cy'', ''base_salary'' \<mapsto> PNum 17600]"

definition att_ann_1 :: pydict where
  "att_ann_1 = [''emp_id'' \<mapsto> PStr ''1'', ''name'' \<mapsto> PStr ''Ann'', ''status'' \<mapsto> PStr ''P'',
                ''ip'' \<mapsto> PStr ''127.0.0.1'', ''overtime'' \<mapsto> PNum 2]"

definition att_bob_1 :: pydict where
  "att_bob_1 = [''emp_id'' \<mapsto> PStr ''2'', ''name'' \<mapsto> PStr ''Bob'', ''status'' \<mapsto> PStr ''A'',
                ''ip'' \<mapsto> PStr ''127.0.0.1'', ''overtime'' \<mapsto> PNum 10]"

definition att_ann_4 :: pydict where
  "att_ann_4 = [''emp_id'' \<mapsto> PStr ''1'', ''name'' \<mapsto> PStr ''Ann'', ''status'' \<mapsto> PStr ''present'',
                ''ip'' \<mapsto> PStr ''127.0.0.1'', ''overtime'' \<mapsto> PStr ''x'']"

definition fs0 :: files where
  "fs0 = [EMP_FILE \<mapsto> Parsed [ann, bob, cy],
          attendance_path ''2025-08-01'' \<mapsto> Parsed [att_ann_1, att_bob_1],
          attendance_path ''2025-08-04'' \<mapsto> Parsed [att_ann_4]]"

definition august_2025 :: "string list" where
  "august_2025 =
     [''2025-08-01'', ''2025-08-02'', ''2025-08-03'', ''2025-08-04'', ''2025-08-05'',
      ''2025-08-06'', ''2025-08-07'', ''2025-08-08'', ''2025-08-09'', ''2025-08-10'',
      ''2025-08-11'', ''2025-08-12'', ''2025-08-13'', ''2025-08-14'', ''2025-08-15'',
      ''2025-08-16'', ''2025-08-17'', ''2025-08-18'', ''2025-08-19'', ''2025-08-20'',
      ''2025-08-21'', ''2025-08-22'', ''2025-08-23'', ''2025-08-24'', ''2025-08-25'',
      ''2025-08-26'', ''2025-08-27'', ''2025-08-28'', ''2025-08-29'', ''2025-08-30'',
      ''2025-08-31'']"

definition row_ann :: salary_row where
  "row_ann = \<lparr>Emp_Id = PStr ''1'', Name = PStr ''Ann'', Month = ''2025-08'',
              Base_Salary = 17600, Working_Days = 21, Present = 2, Absent = 0,
              Overtime_Hours = 2, Net_Pay = 39400 / 21\<rparr>"

definition row_bob :: salary_row where
  "row_bob = \<lparr>Emp_Id = PStr ''2'', Name = PStr ''Bob'', Month = ''2025-08'',
              Base_Salary = 17600, Working_Days = 21, Present = 0, Absent = 1,
              Overtime_Hours = 10, Net_Pay = 1000\<rparr>"

definition row_cy :: salary_row where
  "row_cy = \<lparr>Emp_Id = PStr ''3'', Name = PStr ''Cy'', Month = ''2025-08'',
             Base_Salary = 17600, Working_Days = 21, Present = 0, Absent = 0,
             Overtime_Hours = 0, Net_Pay = 0\<rparr>"

definition form_dup :: form where
  "form_dup = \<lparr>emp_id_var = '' 2 '', name_var = ''Bo'', dept_var = [], role_var = [],
               base_var = ''17600'', join_date_var = ''2025-08-19'', phone_var = [],
               email_var = ''bo@example.org''\<rparr>"

definition form_new :: form where
  "form_new = form_dup\<lparr>emp_id_var := ''4''\<rparr>"

definition att_old :: pydict where
  "att_old = [''emp_id'' \<mapsto> PStr ''9'', ''name'' \<mapsto> PStr ''Old'', ''status'' \<mapsto> PStr ''P'',
              ''ip'' \<mapsto> PStr ''10.0.0.9'', ''overtime'' \<mapsto> PNum 1]"

definition fs1 :: files where
  "fs1 = [EMP_FILE \<mapsto> Parsed [ann, bob],
          attendance_path ''2025-08-19'' \<mapsto> Parsed [att_ann_1, att_old]]"

section \<open>Properties\<close>

subsection \<open>Formatting and parsing a date\<close>

lemma digit_val_digit_char: "k < 10 \<Longrightarrow> digit_val (digit_char k) = k"
  by (simp add: digit_val_def digit_char_def)

lemma is_digit_digit_char: "k < 10 \<Longrightarrow> is_digit (digit_char k)"
  by (simp add: is_digit_def digit_char_def)

lemma length_digits: "length (digits k n) = k"
  by (induction k arbitrary: n) simp_all

lemma all_digits: "list_all is_digit (digits k n)"
  by (induction k arbitrary: n) (simp_all add: is_digit_digit_char)

lemma num_of_snoc: "num_of (s @ [c]) = 10 * num_of s + digit_val c"
  by (simp add: num_of_def)

lemma num_of_digits: "num_of (digits k n) = n mod 10 ^ k"
proof (induction k arbitrary: n)
  case 0
  then show ?case by (simp add: num_of_def)
next
  case (Suc k)
  have "num_of (digits (Suc k) n) = 10 * (n div 10 mod 10 ^ k) + n mod 10"
    by (simp add: num_of_snoc Suc.IH digit_val_digit_char)
  also have "\<dots> = n mod 10 ^ Suc k"
    by (simp add: mod_mult2_eq)
  finally show ?case .
qed

lemma days_in_month_bounds:
  assumes "1 \<le> m" "m \<le> 12"
  shows "days_in_month y m \<le> 31 \<and> 28 \<le> days_in_month y m"
proof -
  from assms have "m = 1 \<or> m = 2 \<or> m = 3 \<or> m = 4 \<or> m = 5 \<or> m = 6 \<or> m = 7 \<or> m = 8 \<or>
      m = 9 \<or> m = 10 \<or> m = 11 \<or> m = 12" by arith
  then show ?thesis
    by (auto simp: days_in_month_def mdays_def)
qed

lemma strftime_parts:
  "take 4 (strftime_ymd d) = digits 4 (nat (year d))"
  "take 2 (drop 5 (strftime_ymd d)) = digits 2 (nat (month d))"
  "drop 8 (strftime_ymd d) = digits 2 (nat (day d))"
  "strftime_ymd d ! 4 = CHR ''-''"
  "strftime_ymd d ! 7 = CHR ''-''"
  "length (strftime_ymd d) = 10"
  by (simp_all add: strftime_ymd_def length_digits nth_append)

lemma ymd_shape_strftime: "ymd_shape (strftime_ymd d)"
  unfolding ymd_shape_def strftime_parts by (simp add: all_digits)

text \<open>Parsing the string of a date of the calendar gives the date back.\<close>

lemma strptime_strftime:
  assumes "1 \<le> year d" "year d \<le> 9999" "1 \<le> month d" "month d \<le> 12"
    "1 \<le> day d" "day d \<le> days_in_month (year d) (month d)"
  shows "strptime_ymd (strftime_ymd d) = Inr d"
proof -
  have d31: "day d \<le> 31"
    using days_in_month_bounds [of "month d" "year d"] assms by simp
  have y: "int (num_of (digits 4 (nat (year d)))) = year d"
    using assms by (simp add: num_of_digits)
  have m: "int (num_of (digits 2 (nat (month d)))) = month d"
    using assms by (simp add: num_of_digits)
  have dd: "int (num_of (digits 2 (nat (day d)))) = day d"
    using assms d31 by (simp add: num_of_digits)
  show ?thesis
    unfolding strptime_ymd_def strftime_parts y m dd
    using assms by (simp add: ymd_shape_strftime mk_date_def)
qed

subsection \<open>Business days\<close>

lemma count_business_strftime:
  assumes "\<forall>d \<in> set ds. 1 \<le> year d \<and> year d \<le> 9999 \<and> 1 \<le> month d \<and> month d \<le> 12 \<and>
             1 \<le> day d \<and> day d \<le> days_in_month (year d) (month d)"
  shows "count_business (map strftime_ymd ds) cnt =
           Inr (cnt + length (filter (\<lambda>d. weekday d < 5) ds))"
  using assms
proof (induction ds arbitrary: cnt)
  case Nil
  then show ?case by simp
next
  case (Cons d ds)
  have "strptime_ymd (strftime_ymd d) = Inr d"
    using Cons.prems by (intro strptime_strftime) simp_all
  moreover have "count_business (map strftime_ymd ds) c =
           Inr (c + length (filter (\<lambda>d. weekday d < 5) ds))" for c
    using Cons.prems by (intro Cons.IH) simp
  ultimately show ?case by simp
qed

lemma month_days_iter_valid:
  assumes "1 \<le> y" "y \<le> 9999" "1 \<le> m" "m \<le> 12"
  shows "month_days_iter y m =
           Inr (map strftime_ymd
                  (map (\<lambda>i. \<lparr>year = y, month = m, day = 1 + int i\<rparr>)
                     [0..<nat (days_in_month y m)]))"
  using assms days_in_month_bounds [of m y]
  by (simp add: month_days_iter_def mk_date_def)

lemma length_filter_upt_card:
  "length (filter (\<lambda>i. Q (1 + int i)) [0..<n]) = card {d. 1 \<le> d \<and> d \<le> int n \<and> Q d}"
proof -
  have "length (filter (\<lambda>i. Q (1 + int i)) [0..<n]) = card {i. i < n \<and> Q (1 + int i)}"
    by (simp add: distinct_length_filter Collect_conj_eq Int_commute lessThan_def [symmetric]
        atLeast0LessThan)
  also have "\<dots> = card ((\<lambda>i. 1 + int i) ` {i. i < n \<and> Q (1 + int i)})"
    by (simp add: card_image inj_on_def)
  also have "(\<lambda>i. 1 + int i) ` {i. i < n \<and> Q (1 + int i)} = {d. 1 \<le> d \<and> d \<le> int n \<and> Q d}"
  proof (rule set_eqI, rule iffI)
    fix d assume "d \<in> (\<lambda>i. 1 + int i) ` {i. i < n \<and> Q (1 + int i)}"
    then show "d \<in> {d. 1 \<le> d \<and> d \<le> int n \<and> Q d}" by auto
  next
    fix d assume "d \<in> {d. 1 \<le> d \<and> d \<le> int n \<and> Q d}"
    then have "1 \<le> d" "d \<le> int n" "Q d" by simp_all
    then have "nat (d - 1) < n \<and> Q (1 + int (nat (d - 1)))" "d = 1 + int (nat (d - 1))"
      by simp_all
    then show "d \<in> (\<lambda>i. 1 + int i) ` {i. i < n \<and> Q (1 + int i)}"
      by blast
  qed
  finally show ?thesis .
qed

lemma business_days_card:
  assumes "1 \<le> y" "y \<le> 9999" "1 \<le> m" "m \<le> 12"
  shows "business_days_in_month y m =
           Inr (card {d. 1 \<le> d \<and> d \<le> days_in_month y m \<and>
                        weekday \<lparr>year = y, month = m, day = d\<rparr> < 5})"
proof -
  let ?n = "nat (days_in_month y m)"
  let ?ds = "map (\<lambda>i. \<lparr>year = y, month = m, day = 1 + int i\<rparr>) [0..<?n]"
  have n: "int ?n = days_in_month y m"
    using days_in_month_bounds [of m y] assms by simp
  have iter: "month_days_iter y m = Inr (map strftime_ymd ?ds)"
    using assms by (rule month_days_iter_valid)
  have ok: "\<forall>d \<in> set ?ds. 1 \<le> year d \<and> year d \<le> 9999 \<and> 1 \<le> month d \<and> month d \<le> 12 \<and>
             1 \<le> day d \<and> day d \<le> days_in_month (year d) (month d)"
    using assms n by auto
  have "business_days_in_month y m = count_business (map strftime_ymd ?ds) 0"
    by (simp add: business_days_in_month_def iter)
  also have "\<dots> = Inr (length (filter (\<lambda>d. weekday d < 5) ?ds))"
    using count_business_strftime [OF ok, of 0] by simp
  also have "length (filter (\<lambda>d. weekday d < 5) ?ds) =
      length (filter (\<lambda>i. weekday \<lparr>year = y, month = m, day = 1 + int i\<rparr> < 5) [0..<?n])"
    by (simp add: filter_map o_def)
  also have "\<dots> = card {d. 1 \<le> d \<and> d \<le> int ?n \<and> weekday \<lparr>year = y, month = m, day = d\<rparr> < 5}"
    by (rule length_filter_upt_card)
  finally show ?thesis by (simp only: n)
qed

lemma august_2025_days: "month_days_iter 2025 8 = Inr august_2025"
  unfolding august_2025_def by code_simp

lemma august_2025_business_days: "business_days_in_month 2025 8 = Inr 21"
  by code_simp

text \<open>
  C6. The working days of a month are the days of the month whose weekday is Monday to
  Friday (weekday 0 to 4): \<open>business_days_in_month\<close> is a function of the year and the
  month alone (it takes no attendance), it returns the number of those days, and for
  August 2025 it returns 21.
\<close>

theorem business_days_in_month_counts_weekdays:
  assumes "1000 \<le> y" "y \<le> 9999" "1 \<le> m" "m \<le> 12"
  shows "business_days_in_month y m =
           Inr (card {d. 1 \<le> d \<and> d \<le> days_in_month y m \<and>
                        weekday \<lparr>year = y, month = m, day = d\<rparr> < 5}) \<and>
         business_days_in_month 2025 8 = Inr 21"
proof -
  from assms have "1 \<le> y" by simp
  then show ?thesis
    using assms(2-4) by (simp add: business_days_card august_2025_business_days)
qed

theorem business_days_in_month_counts_weekdays_witness:
  "(1000::int) \<le> 2025 \<and> (2025::int) \<le> 9999 \<and> (1::int) \<le> 8 \<and> (8::int) \<le> 12 \<and>
   days_in_month 2025 8 = 31 \<and> weekday \<lparr>year = 2025, month = 8, day = 1\<rparr> = 4 \<and>
   business_days_in_month 2025 8 =
     Inr (card {d. 1 \<le> d \<and> d \<le> days_in_month 2025 8 \<and>
                  weekday \<lparr>year = 2025, month = 8, day = d\<rparr> < 5}) \<and>
   card {d. 1 \<le> d \<and> d \<le> days_in_month 2025 8 \<and>
            weekday \<lparr>year = 2025, month = 8, day = d\<rparr> < 5} = 21"
proof -
  have dim: "days_in_month 2025 8 = 31"
    by (simp add: days_in_month_def mdays_def)
  have wd: "weekday \<lparr>year = 2025, month = 8, day = 1\<rparr> = 4"
    by (simp add: weekday_def toordinal_def days_before_year_def days_before_month_def
        mdays_def is_leap_def)
  have th: "business_days_in_month 2025 8 =
     Inr (card {d. 1 \<le> d \<and> d \<le> days_in_month 2025 8 \<and>
                  weekday \<lparr>year = 2025, month = 8, day = d\<rparr> < 5}) \<and>
     business_days_in_month 2025 8 = Inr 21"
    by (rule business_days_in_month_counts_weekdays) simp_all
  note a = th [THEN conjunct1] and b = th [THEN conjunct2]
  have c: "card {d. 1 \<le> d \<and> d \<le> days_in_month 2025 8 \<and>
                  weekday \<lparr>year = 2025, month = 8, day = d\<rparr> < 5} = 21"
    using a unfolding b by simp
  from a c dim wd show ?thesis by simp
qed

subsection \<open>Storage\<close>

lemma attendance_path_neq_EMP_FILE: "attendance_path dstr \<noteq> EMP_FILE"
  by (cases dstr)
    (auto simp: attendance_path_def path_join_def startswith_def EMP_FILE_def ATT_DIR_def
      DATA_DIR_def)

lemma ensure_dirs_attendance [simp]:
  "ensure_dirs fs (attendance_path dstr) = fs (attendance_path dstr)"
  using attendance_path_neq_EMP_FILE [of dstr] by (simp add: ensure_dirs_def)

lemma ensure_dirs_idem [simp]: "ensure_dirs (ensure_dirs fs) = ensure_dirs fs"
  by (simp add: ensure_dirs_def)

lemma ensure_dirs_update_attendance:
  "ensure_dirs ((ensure_dirs fs)(attendance_path dstr \<mapsto> c)) =
     (ensure_dirs fs)(attendance_path dstr \<mapsto> c)"
  using attendance_path_neq_EMP_FILE [of dstr] by (auto simp: ensure_dirs_def)

lemma snapshot_ensure_dirs [simp]: "snapshot (ensure_dirs fs) dstr = snapshot fs dstr"
  by (simp add: snapshot_def)

lemma snd_load_attendance [simp]: "snd (load_attendance fs dstr) = ensure_dirs fs"
  by (simp add: load_attendance_def Let_def)

lemma fst_load_attendance:
  "fst (load_attendance fs dstr) =
     (if fs (attendance_path dstr) = Some Unparsable then Inl JSONDecodeError
      else Inr (snapshot fs dstr))"
  by (simp add: load_attendance_def Let_def snapshot_def split: option.splits content.splits)

lemma snd_load_employees [simp]: "snd (load_employees fs) = ensure_dirs fs"
  by (simp add: load_employees_def Let_def)

lemma fst_load_employees_ensure [simp]:
  "fst (load_employees (ensure_dirs fs)) = fst (load_employees fs)"
  by (simp add: load_employees_def Let_def)

text \<open>
  The roster loads as the empty list when its file is missing or does not parse, and a
  day without a file loads as the empty list.
\<close>

lemma load_employees_missing_or_malformed:
  "fs EMP_FILE = None \<or> fs EMP_FILE = Some Unparsable \<Longrightarrow> fst (load_employees fs) = []"
  by (auto simp: load_employees_def Let_def ensure_dirs_def)

lemma load_attendance_missing:
  "fs (attendance_path dstr) = None \<Longrightarrow> fst (load_attendance fs dstr) = Inr []"
  by (simp add: fst_load_attendance snapshot_def)

text \<open>
  C7 (the code at the failing input). A day whose file does not parse: \<open>load_attendance\<close>
  raises the decoding error instead of returning the empty list.
\<close>

theorem load_attendance_malformed_raises:
  "fst (load_attendance [attendance_path ''2025-08-19'' \<mapsto> Unparsable] ''2025-08-19'') =
     Inl JSONDecodeError"
  by (simp add: fst_load_attendance)

text \<open>
  C9. Saving the records \<open>rs\<close> as the snapshot of a day and loading that day returns
  exactly \<open>rs\<close>, whatever the date key, the records and the file system before.
\<close>

theorem attendance_round_trip:
  "fst (load_attendance (save_attendance fs dstr rs) dstr) = Inr rs"
  by (simp add: load_attendance_def save_attendance_def Let_def ensure_dirs_update_attendance)

subsection \<open>The salary formula on one scenario\<close>

text \<open>
  C2 (as the code has it). For base salary 17600, 22 working days, 22 present days and
  10 overtime hours the hourly rate is 100, the prorated pay 17600, the overtime pay
  1000 and the net pay 18600.
\<close>

theorem overtime_scenario:
  "per_hour 17600 = 100 \<and> prorated 17600 22 22 = 17600 \<and>
   ot_pay 17600 10 = 1000 \<and> net_pay 17600 22 22 10 = 18600"
  by (simp add: per_hour_def prorated_def ot_pay_def net_pay_def)

text \<open>The net pay of that scenario is not 18000.\<close>

theorem overtime_scenario_not_18000:
  "\<not> (per_hour 17600 = 100 \<and> prorated 17600 22 22 = 17600 \<and>
      ot_pay 17600 10 = 1000 \<and> net_pay 17600 22 22 10 = 18000)"
  by (simp add: per_hour_def prorated_def ot_pay_def net_pay_def)

subsection \<open>Month aggregation\<close>

lemma of_char_upper_char:
  "(of_char (upper_char c) :: nat) =
     (if 97 \<le> (of_char c :: nat) \<and> (of_char c :: nat) \<le> 122 then of_char c - 32 else of_char c)"
proof -
  have "(of_char c :: nat) - 32 < 256"
    using nat_of_char_less_256 [of c] by arith
  then show ?thesis
    by (simp add: upper_char_def)
qed

lemma upper_char_P: "upper_char c = CHR ''P'' \<longleftrightarrow> c = CHR ''P'' \<or> c = CHR ''p''"
proof -
  have "(upper_char c = CHR ''P'') = ((of_char (upper_char c) :: nat) = of_char CHR ''P'')"
    by (simp only: of_char_eq_iff)
  also have "\<dots> = ((of_char c :: nat) = 80 \<or> (of_char c :: nat) = 112)"
    unfolding of_char_upper_char by (simp, arith)
  also have "\<dots> = ((of_char c :: nat) = of_char CHR ''P'' \<or> (of_char c :: nat) = of_char CHR ''p'')"
    by simp
  also have "\<dots> = (c = CHR ''P'' \<or> c = CHR ''p'')"
    by (simp only: of_char_eq_iff)
  finally show ?thesis .
qed

text \<open>The status test of the source against the first character of the status.\<close>

lemma status_test:
  assumes "status_ok r"
  shows "\<exists>st. py_upper (status_arg r) = Inr st \<and> (startswith st ''P'' \<longleftrightarrow> status_P r)"
proof (cases "r ''status''")
  case None
  then show ?thesis
    by (simp add: status_arg_def dict_get_def status_P_def upper_def upper_char_def startswith_def)
next
  case (Some v)
  show ?thesis
  proof (cases v)
    case PNone
    with Some show ?thesis
      by (simp add: status_arg_def dict_get_def status_P_def upper_def upper_char_def startswith_def)
  next
    case (PNum x)
    with Some assms have "x = 0" by (simp add: status_ok_def)
    with Some PNum show ?thesis
      by (simp add: status_arg_def dict_get_def status_P_def upper_def upper_char_def startswith_def)
  next
    case (PStr s)
    show ?thesis
    proof (cases s)
      case Nil
      with Some PStr show ?thesis
        by (simp add: status_arg_def dict_get_def status_P_def upper_def upper_char_def startswith_def)
    next
      case (Cons c cs)
      with Some PStr show ?thesis
        by (simp add: status_arg_def dict_get_def status_P_def upper_def startswith_def upper_char_P)
    qed
  qed
qed

lemma status_raises:
  assumes "\<not> status_ok r"
  shows "py_upper (status_arg r) = Inl AttributeError"
proof -
  from assms obtain x where "r ''status'' = Some (PNum x)" "x \<noteq> 0"
    by (auto simp: status_ok_def split: option.splits pyval.splits)
  then show ?thesis
    by (simp add: status_arg_def dict_get_def)
qed

lemma add_record_ok:
  assumes "status_ok r"
  shows "add_record pf d r = Inr (merged pf d [r])"
proof -
  from status_test [OF assms] obtain st where
    st: "py_upper (status_arg r) = Inr st" "startswith st ''P'' \<longleftrightarrow> status_P r"
    by blast
  show ?thesis
    unfolding add_record_def Let_def status_arg_def [symmetric] st(1)
    using st(2)
    by (auto simp: merged_def fun_eq_iff rec_emp_def emp_stats_def add_stats_def ot_value_def
        zero_stats_def split: option.splits sum.splits)
qed

lemma add_record_raises:
  assumes "\<not> status_ok r"
  shows "add_record pf d r = Inl AttributeError"
  unfolding add_record_def Let_def status_arg_def [symmetric] status_raises [OF assms]
  by simp

lemma emp_stats_Cons:
  "emp_stats pf (r # rs) emp =
     (if rec_emp r = emp then add_stats (emp_stats pf [r] emp) (emp_stats pf rs emp)
      else emp_stats pf rs emp)"
  by (simp add: emp_stats_def add_stats_def)

lemma emp_stats_Nil: "emp_stats pf [] emp = zero_stats"
  by (simp add: emp_stats_def zero_stats_def)

lemma add_stats_assoc: "add_stats (add_stats a b) c = add_stats a (add_stats b c)"
  by (simp add: add_stats_def)

lemma add_stats_zero [simp]: "add_stats zero_stats s = s" "add_stats s zero_stats = s"
  by (simp_all add: add_stats_def zero_stats_def)

lemma emp_stats_other:
  assumes "emp \<notin> rec_emp ` set rs"
  shows "emp_stats pf rs emp = zero_stats"
proof -
  from assms have "filter (\<lambda>r. rec_emp r = emp) rs = []"
    "filter (\<lambda>r. rec_emp r = emp \<and> status_P r) rs = []"
    "filter (\<lambda>r. rec_emp r = emp \<and> \<not> status_P r) rs = []"
    by (auto simp: filter_empty_conv)
  then show ?thesis
    by (simp add: emp_stats_def zero_stats_def)
qed

lemma emp_stats_append:
  "emp_stats pf (xs @ ys) emp = add_stats (emp_stats pf xs emp) (emp_stats pf ys emp)"
  by (simp add: emp_stats_def add_stats_def)

lemma merged_Nil [simp]: "merged pf d [] = d"
  by (simp add: merged_def fun_eq_iff)

lemma merged_append: "merged pf (merged pf d xs) ys = merged pf d (xs @ ys)"
  by (auto simp: merged_def fun_eq_iff emp_stats_append add_stats_assoc emp_stats_other
      split: option.splits)

lemma merged_Cons: "merged pf (merged pf d [r]) rs = merged pf d (r # rs)"
  using merged_append [of pf d "[r]" rs] by simp

lemma add_rows_ok:
  "list_all status_ok rs \<Longrightarrow> add_rows pf d rs = Inr (merged pf d rs)"
  by (induction rs arbitrary: d) (simp_all add: add_record_ok merged_Cons)

lemma add_rows_Inr:
  "add_rows pf d rs = Inr d' \<Longrightarrow> list_all status_ok rs"
proof (induction rs arbitrary: d)
  case Nil
  then show ?case by simp
next
  case (Cons r rs)
  show ?case
  proof (cases "status_ok r")
    case True
    with Cons show ?thesis by (simp add: add_record_ok)
  next
    case False
    with Cons.prems show ?thesis by (simp add: add_record_raises)
  qed
qed

lemma merged_empty:
  "merged pf Map.empty rs =
     (\<lambda>emp. if emp \<in> rec_emp ` set rs then Some (emp_stats pf rs emp) else None)"
  by (simp add: merged_def fun_eq_iff)

text \<open>The loop over the days.\<close>


lemma load_attendance_eq:
  "load_attendance fs dstr =
     (if fs (attendance_path dstr) = Some Unparsable then Inl JSONDecodeError
      else Inr (snapshot fs dstr), ensure_dirs fs)"
  by (rule prod_eqI) (simp_all add: fst_load_attendance)

lemma snapshot_ensure_dirs_fun: "snapshot (ensure_dirs fs) = snapshot fs"
  by (rule ext) simp

lemma month_records_ensure_dirs [simp]:
  "month_records (ensure_dirs fs) ds = month_records fs ds"
  by (simp add: month_records_def snapshot_ensure_dirs_fun)

lemma gather_days_ensure_dirs:
  "fst (gather_days pf (ensure_dirs fs) ds d) = fst (gather_days pf fs ds d)"
  by (cases ds) (simp_all add: load_attendance_eq)

lemma month_records_Cons: "month_records fs (dstr # ds) = snapshot fs dstr @ month_records fs ds"
  by (simp add: month_records_def)

lemma gather_days_ok:
  assumes "readable fs ds" "list_all status_ok (month_records fs ds)"
  shows "fst (gather_days pf fs ds d) = Inr (merged pf d (month_records fs ds))"
  using assms
proof (induction ds arbitrary: fs d)
  case Nil
  then show ?case by (simp add: month_records_def)
next
  case (Cons dstr ds)
  from Cons.prems have rd: "fs (attendance_path dstr) \<noteq> Some Unparsable"
    and rds: "readable (ensure_dirs fs) ds"
    by (simp_all add: readable_def)
  from Cons.prems have ok1: "list_all status_ok (snapshot fs dstr)"
    and ok2: "list_all status_ok (month_records (ensure_dirs fs) ds)"
    by (simp_all add: month_records_Cons)
  have IH: "fst (gather_days pf (ensure_dirs fs) ds d') =
      Inr (merged pf d' (month_records fs ds))" for d'
    using Cons.IH [OF rds ok2] by simp
  show ?case
    using rd by (simp add: load_attendance_eq IH month_records_Cons add_rows_ok [OF ok1] merged_append)
qed

lemma gather_days_Inr:
  assumes "fst (gather_days pf fs ds d) = Inr d'"
  shows "readable fs ds \<and> list_all status_ok (month_records fs ds)"
  using assms
proof (induction ds arbitrary: fs d)
  case Nil
  then show ?case by (simp add: month_records_def readable_def)
next
  case (Cons dstr ds)
  from Cons.prems have rd: "fs (attendance_path dstr) \<noteq> Some Unparsable"
    by (auto simp: load_attendance_eq split: if_splits)
  show ?case
  proof (cases "snapshot fs dstr = []")
    case True
    with Cons.prems rd have "fst (gather_days pf (ensure_dirs fs) ds d) = Inr d'"
      by (simp add: load_attendance_eq)
    from Cons.IH [OF this] rd True show ?thesis
      by (simp add: readable_def month_records_Cons)
  next
    case False
    with Cons.prems rd obtain d1 where d1: "add_rows pf d (snapshot fs dstr) = Inr d1"
      and rest: "fst (gather_days pf (ensure_dirs fs) ds d1) = Inr d'"
      by (auto simp: load_attendance_eq split: sum.splits)
    from Cons.IH [OF rest] add_rows_Inr [OF d1] rd show ?thesis
      by (simp add: readable_def month_records_Cons)
  qed
qed

lemma gather_days_result:
  assumes "fst (gather_days pf fs ds d) = Inr d'"
  shows "d' = merged pf d (month_records fs ds)"
  using gather_days_Inr [OF assms] gather_days_ok [of fs ds pf d] assms by simp

lemma snd_gather_days:
  "snd (gather_days pf fs ds d) = (if ds = [] then fs else ensure_dirs fs)"
proof (induction ds arbitrary: fs d)
  case Nil
  then show ?case by simp
next
  case (Cons dstr ds)
  show ?case
    by (auto simp: load_attendance_eq Cons.IH split: sum.splits)
qed

text \<open>Days without a file do not matter.\<close>

lemma gather_days_skip:
  "fst (gather_days pf fs ds d) =
     fst (gather_days pf fs (filter (\<lambda>dstr. fs (attendance_path dstr) \<noteq> None) ds) d)"
proof (induction ds arbitrary: fs d)
  case Nil
  then show ?case by simp
next
  case (Cons dstr ds)
  have IH: "fst (gather_days pf (ensure_dirs fs) ds d') =
     fst (gather_days pf (ensure_dirs fs) (filter (\<lambda>dstr. fs (attendance_path dstr) \<noteq> None) ds) d')" for d'
    using Cons.IH [of "ensure_dirs fs" d'] by simp
  show ?case
  proof (cases "fs (attendance_path dstr)")
    case None
    with IH [of d] show ?thesis
      by (simp add: load_attendance_eq snapshot_def gather_days_ensure_dirs)
  next
    case (Some c)
    then show ?thesis
      by (auto simp: load_attendance_eq IH split: sum.splits)
  qed
qed


lemma gather_month_days:
  "month_days_iter y m = Inr ds \<Longrightarrow>
     gather_month_attendance pf fs y m = gather_days pf fs ds Map.empty"
  by (simp add: gather_month_attendance_def)

lemma gather_month_result:
  assumes "month_days_iter y m = Inr ds" "fst (gather_month_attendance pf fs y m) = Inr att"
  shows "att = (\<lambda>emp. if emp \<in> rec_emp ` set (month_records fs ds)
                       then Some (emp_stats pf (month_records fs ds) emp) else None)"
  using gather_days_result [of pf fs ds Map.empty att] assms
  by (simp add: gather_month_days merged_empty)

lemma stats_of_gathered:
  "(case (if emp \<in> rec_emp ` set rs then Some (emp_stats pf rs emp) else None) of
      None \<Rightarrow> zero_stats | Some s \<Rightarrow> s) = emp_stats pf rs emp"
  by (simp add: emp_stats_other)

subsection \<open>The rows of \<^verbatim>\<open>on_calculate\<close>\<close>

lemma calc_row_fields:
  assumes "calc_row pf att w ms e = Inr row"
  shows "Emp_Id row = rec_emp e \<and>
         py_float pf (dict_get e ''base_salary'' (PNum 0)) = Inr (Base_Salary row) \<and>
         Month row = ms \<and> Working_Days row = w \<and>
         Present row = present (case att (rec_emp e) of None \<Rightarrow> zero_stats | Some s \<Rightarrow> s) \<and>
         Absent row = absent (case att (rec_emp e) of None \<Rightarrow> zero_stats | Some s \<Rightarrow> s) \<and>
         Overtime_Hours row = ot (case att (rec_emp e) of None \<Rightarrow> zero_stats | Some s \<Rightarrow> s) \<and>
         Net_Pay row = net_pay (Base_Salary row) w (Present row) (Overtime_Hours row)"
  using assms
  by (auto simp: calc_row_def Let_def rec_emp_def split: sum.splits)

lemma calc_rows_member:
  assumes "calc_rows pf att w ms filt es = Inr rows" "row \<in> set rows"
  shows "\<exists>e \<in> set es. calc_row pf att w ms e = Inr row"
  using assms
proof (induction es arbitrary: rows)
  case Nil
  then show ?case by simp
next
  case (Cons e es)
  show ?case
  proof (cases "filt \<noteq> [] \<and> dict_get e ''emp_id'' (PStr []) \<noteq> PStr filt")
    case True
    with Cons.prems have "calc_rows pf att w ms filt es = Inr rows" by simp
    from Cons.IH [OF this Cons.prems(2)] show ?thesis by simp
  next
    case False
    with Cons.prems obtain r rs where r: "calc_row pf att w ms e = Inr r"
      and rs: "calc_rows pf att w ms filt es = Inr rs" and rows: "rows = r # rs"
      by (auto split: sum.splits)
    show ?thesis
    proof (cases "row = r")
      case True
      with r show ?thesis by simp
    next
      case False
      with rows Cons.prems(2) have "row \<in> set rs" by simp
      from Cons.IH [OF rs this] show ?thesis by simp
    qed
  qed
qed

lemma snd_gather_month:
  "fst (load_employees (snd (gather_month_attendance pf fs y m))) = fst (load_employees fs)"
  by (simp add: gather_month_attendance_def snd_gather_days split: sum.splits)

lemma on_calculate_Inr:
  assumes "fst (on_calculate pf fs y m emp_var) = Inr rows"
  shows "\<exists>w ds att. business_days_in_month y m = Inr w \<and> month_days_iter y m = Inr ds \<and>
           fst (gather_month_attendance pf fs y m) = Inr att \<and>
           calc_rows pf att w (digits 4 (nat y) @ ''-'' @ digits 2 (nat m)) (strip emp_var)
             (fst (load_employees fs)) = Inr rows"
proof -
  from assms obtain w where w: "business_days_in_month y m = Inr w"
    by (cases "business_days_in_month y m") (simp_all add: on_calculate_def)
  then obtain ds where ds: "month_days_iter y m = Inr ds"
    by (cases "month_days_iter y m") (simp_all add: business_days_in_month_def)
  obtain g fs1 where g: "gather_month_attendance pf fs y m = (g, fs1)"
    by (cases "gather_month_attendance pf fs y m")
  from assms w g obtain att where att: "g = Inr att"
    by (cases g) (simp_all add: on_calculate_def)
  have emps: "fst (load_employees fs1) = fst (load_employees fs)"
    using snd_gather_month [of pf fs y m] g by simp
  from assms w g att emps
  have "calc_rows pf att w (digits 4 (nat y) @ ''-'' @ digits 2 (nat m)) (strip emp_var)
             (fst (load_employees fs)) = Inr rows"
    by (simp add: on_calculate_def split_beta)
  with w ds g att show ?thesis by simp
qed

lemma on_calculate_ok:
  assumes "business_days_in_month y m = Inr w" "fst (gather_month_attendance pf fs y m) = Inr att"
  shows "fst (on_calculate pf fs y m emp_var) =
           calc_rows pf att w (digits 4 (nat y) @ ''-'' @ digits 2 (nat m)) (strip emp_var)
             (fst (load_employees fs))"
proof -
  obtain g fs1 where g: "gather_month_attendance pf fs y m = (g, fs1)"
    by (cases "gather_month_attendance pf fs y m")
  have emps: "fst (load_employees fs1) = fst (load_employees fs)"
    using snd_gather_month [of pf fs y m] g by simp
  from assms g emps show ?thesis
    by (simp add: on_calculate_def split_beta)
qed

text \<open>Every row of a successful calculation, in terms of the stored records.\<close>

lemma on_calculate_row:
  assumes "fst (on_calculate pf fs y m emp_var) = Inr rows" "row \<in> set rows"
    and ds: "month_days_iter y m = Inr ds"
  shows "\<exists>w e. business_days_in_month y m = Inr w \<and> e \<in> set (fst (load_employees fs)) \<and>
           Emp_Id row = rec_emp e \<and>
           py_float pf (dict_get e ''base_salary'' (PNum 0)) = Inr (Base_Salary row) \<and>
           Working_Days row = w \<and>
           Present row = present (emp_stats pf (month_records fs ds) (Emp_Id row)) \<and>
           Absent row = absent (emp_stats pf (month_records fs ds) (Emp_Id row)) \<and>
           Overtime_Hours row = ot (emp_stats pf (month_records fs ds) (Emp_Id row)) \<and>
           Net_Pay row = net_pay (Base_Salary row) w (Present row) (Overtime_Hours row)"
proof -
  from on_calculate_Inr [OF assms(1)] ds obtain w att where
    w: "business_days_in_month y m = Inr w" and
    att: "fst (gather_month_attendance pf fs y m) = Inr att" and
    rows: "calc_rows pf att w (digits 4 (nat y) @ ''-'' @ digits 2 (nat m)) (strip emp_var)
             (fst (load_employees fs)) = Inr rows"
    by auto
  from calc_rows_member [OF rows assms(2)] obtain e where
    e: "e \<in> set (fst (load_employees fs))" and
    row: "calc_row pf att w (digits 4 (nat y) @ ''-'' @ digits 2 (nat m)) e = Inr row"
    by blast
  note f = calc_row_fields [OF row]
  have st: "(case att (rec_emp e) of None \<Rightarrow> zero_stats | Some s \<Rightarrow> s) =
      emp_stats pf (month_records fs ds) (Emp_Id row)"
    using f by (simp add: gather_month_result [OF ds att] emp_stats_other)
  from f w e show ?thesis
    unfolding st by blast
qed

text \<open>
  C1. Every row of a successful salary calculation belongs to an employee \<open>e\<close> of the
  roster. For a base salary \<open>b\<close> that is not negative (the data model's base salary,
  which \<^verbatim>\<open>_read_form\<close> enforces), with \<open>w\<close> the working days of the month, \<open>p\<close> the
  present days and \<open>h\<close> the overtime hours aggregated for the employee over the month:
  the hourly rate is \<open>b / 176\<close> when \<open>b > 0\<close> and 0 otherwise, the prorated pay is
  \<open>b * (p / w)\<close> when \<open>w > 0\<close> and 0 otherwise, the overtime pay is the hourly rate
  times \<open>h\<close>, and the net pay of the row is the maximum of 0 and the sum of prorated
  pay and overtime pay.
\<close>

theorem on_calculate_salary_formula:
  assumes "fst (on_calculate pf fs y m emp_var) = Inr rows" and "row \<in> set rows"
    and "0 \<le> Base_Salary row"
  shows "\<exists>w ds e. business_days_in_month y m = Inr w \<and> month_days_iter y m = Inr ds \<and>
           e \<in> set (fst (load_employees fs)) \<and> Emp_Id row = rec_emp e \<and>
           py_float pf (dict_get e ''base_salary'' (PNum 0)) = Inr (Base_Salary row) \<and>
           Working_Days row = w \<and>
           Present row = present (emp_stats pf (month_records fs ds) (Emp_Id row)) \<and>
           Overtime_Hours row = ot (emp_stats pf (month_records fs ds) (Emp_Id row)) \<and>
           per_hour (Base_Salary row) =
             (if Base_Salary row > 0 then Base_Salary row / 176 else 0) \<and>
           prorated (Base_Salary row) (Present row) w =
             (if w > 0 then Base_Salary row * (real (Present row) / real w) else 0) \<and>
           ot_pay (Base_Salary row) (Overtime_Hours row) =
             per_hour (Base_Salary row) * Overtime_Hours row \<and>
           Net_Pay row =
             max 0 (prorated (Base_Salary row) (Present row) w +
                    ot_pay (Base_Salary row) (Overtime_Hours row)) \<and>
           Net_Pay row =
             max 0 ((if w > 0 then Base_Salary row * (real (Present row) / real w) else 0) +
                    (if Base_Salary row > 0 then Base_Salary row / 176 else 0) *
                      Overtime_Hours row)"
proof -
  from on_calculate_Inr [OF assms(1)] obtain ds where ds: "month_days_iter y m = Inr ds"
    by blast
  from on_calculate_row [OF assms(1,2) ds] obtain w e where
    "business_days_in_month y m = Inr w" "e \<in> set (fst (load_employees fs))"
    "Emp_Id row = rec_emp e"
    "py_float pf (dict_get e ''base_salary'' (PNum 0)) = Inr (Base_Salary row)"
    "Working_Days row = w"
    "Present row = present (emp_stats pf (month_records fs ds) (Emp_Id row))"
    "Overtime_Hours row = ot (emp_stats pf (month_records fs ds) (Emp_Id row))"
    "Net_Pay row = net_pay (Base_Salary row) w (Present row) (Overtime_Hours row)"
    by blast
  moreover have ph: "per_hour (Base_Salary row) =
             (if Base_Salary row > 0 then Base_Salary row / 176 else 0)"
    using assms(3) by (simp add: per_hour_def)
  moreover have pr: "prorated (Base_Salary row) (Present row) w =
             (if w > 0 then Base_Salary row * (real (Present row) / real w) else 0)" for w
    by (simp add: prorated_def)
  moreover have "ot_pay (Base_Salary row) (Overtime_Hours row) =
             per_hour (Base_Salary row) * Overtime_Hours row"
    by (simp add: ot_pay_def)
  moreover have "net_pay (Base_Salary row) w (Present row) (Overtime_Hours row) =
             max 0 (prorated (Base_Salary row) (Present row) w +
                    ot_pay (Base_Salary row) (Overtime_Hours row))" for w
    by (simp add: net_pay_def)
  moreover have "net_pay (Base_Salary row) w (Present row) (Overtime_Hours row) =
             max 0 ((if w > 0 then Base_Salary row * (real (Present row) / real w) else 0) +
                    (if Base_Salary row > 0 then Base_Salary row / 176 else 0) *
                      Overtime_Hours row)" for w
    unfolding net_pay_def ot_pay_def ph pr ..
  ultimately show ?thesis using ds by metis
qed

text \<open>
  C3. Over the records of all the snapshots of the month (no file failing to parse, every
  status well typed), the aggregation returns for every employee with a record: as
  present days the number of its records whose status is a string starting with
  \<^verbatim>\<open>P\<close> or \<^verbatim>\<open>p\<close>, as absent days the number of its other records, and as overtime
  the sum over its records of the overtime value, a value that does not convert to a
  float counting 0. An employee without a record has no entry.
\<close>

theorem month_aggregation_counts:
  assumes "month_days_iter y m = Inr ds" and "readable fs ds"
    and "list_all status_ok (month_records fs ds)"
  shows "fst (gather_month_attendance pf fs y m) =
           Inr (\<lambda>emp. if emp \<in> rec_emp ` set (month_records fs ds)
                      then Some
                        \<lparr>present = length (filter (\<lambda>r. rec_emp r = emp \<and> status_P r)
                                             (month_records fs ds)),
                         absent = length (filter (\<lambda>r. rec_emp r = emp \<and> \<not> status_P r)
                                            (month_records fs ds)),
                         ot = sum_list (map (ot_value pf)
                                (filter (\<lambda>r. rec_emp r = emp) (month_records fs ds)))\<rparr>
                      else None)"
proof -
  have "fst (gather_month_attendance pf fs y m) =
      Inr (\<lambda>emp. if emp \<in> rec_emp ` set (month_records fs ds)
                 then Some (emp_stats pf (month_records fs ds) emp) else None)"
    using gather_days_ok [OF assms(2,3), of pf Map.empty]
    by (simp add: gather_month_days [OF assms(1)] merged_empty)
  then show ?thesis
    unfolding emp_stats_def .
qed

text \<open>
  C4. The aggregation of a month is the aggregation of those of its days that have a
  snapshot file: a day without one is skipped and changes no count. An employee who
  is in no snapshot of the month has no entry in the aggregate, and its row of the
  salary calculation has 0 present days, 0 absent days and 0 overtime hours.
\<close>

theorem missing_days_are_skipped:
  assumes "month_days_iter y m = Inr ds"
  shows "fst (gather_month_attendance pf fs y m) =
           fst (gather_days pf fs (filter (\<lambda>dstr. fs (attendance_path dstr) \<noteq> None) ds)
                  Map.empty) \<and>
         (\<forall>att emp. fst (gather_month_attendance pf fs y m) = Inr att \<longrightarrow>
            emp \<notin> rec_emp ` set (month_records fs ds) \<longrightarrow> att emp = None) \<and>
         (\<forall>rows row. fst (on_calculate pf fs y m emp_var) = Inr rows \<longrightarrow> row \<in> set rows \<longrightarrow>
            Emp_Id row \<notin> rec_emp ` set (month_records fs ds) \<longrightarrow>
            Present row = 0 \<and> Absent row = 0 \<and> Overtime_Hours row = 0)"
proof (intro conjI allI impI)
  show "fst (gather_month_attendance pf fs y m) =
           fst (gather_days pf fs (filter (\<lambda>dstr. fs (attendance_path dstr) \<noteq> None) ds)
                  Map.empty)"
    using gather_days_skip [of pf fs ds Map.empty] by (simp add: gather_month_days [OF assms])
next
  fix att emp
  assume att: "fst (gather_month_attendance pf fs y m) = Inr att"
    and no: "emp \<notin> rec_emp ` set (month_records fs ds)"
  show "att emp = None"
    using no by (subst gather_month_result [OF assms att]) simp
next
  fix rows row
  assume r: "fst (on_calculate pf fs y m emp_var) = Inr rows" "row \<in> set rows"
    and no: "Emp_Id row \<notin> rec_emp ` set (month_records fs ds)"
  from on_calculate_row [OF r assms] emp_stats_other [OF no, of pf]
  show "Present row = 0" "Absent row = 0" "Overtime_Hours row = 0"
    by (auto simp: zero_stats_def)
qed

text \<open>
  C5 (as the code has it). For an employee none of whose records of the month has a
  Present status (no record at all included), the present days are 0 and the net pay is
  the maximum of 0 and hourly rate times overtime hours: it is 0 when the overtime
  total is 0, in particular when the employee has no record in the month.
\<close>

theorem absent_employee_net_pay:
  assumes "fst (on_calculate pf fs y m emp_var) = Inr rows" and "row \<in> set rows"
    and "month_days_iter y m = Inr ds"
    and "\<forall>r \<in> set (month_records fs ds). rec_emp r = Emp_Id row \<longrightarrow> \<not> status_P r"
  shows "Present row = 0 \<and>
         Net_Pay row = max 0 (per_hour (Base_Salary row) * Overtime_Hours row) \<and>
         (Overtime_Hours row = 0 \<longrightarrow> Net_Pay row = 0) \<and>
         (Emp_Id row \<notin> rec_emp ` set (month_records fs ds) \<longrightarrow> Net_Pay row = 0)"
proof -
  from on_calculate_row [OF assms(1-3)] obtain w where
    p: "Present row = present (emp_stats pf (month_records fs ds) (Emp_Id row))" and
    h: "Overtime_Hours row = ot (emp_stats pf (month_records fs ds) (Emp_Id row))" and
    n: "Net_Pay row = net_pay (Base_Salary row) w (Present row) (Overtime_Hours row)"
    by blast
  have "filter (\<lambda>r. rec_emp r = Emp_Id row \<and> status_P r) (month_records fs ds) = []"
    using assms(4) by (auto simp: filter_empty_conv)
  then have p0: "Present row = 0"
    by (simp add: p emp_stats_def)
  have net: "Net_Pay row = max 0 (per_hour (Base_Salary row) * Overtime_Hours row)"
    by (simp add: n p0 net_pay_def prorated_def ot_pay_def)
  have "Overtime_Hours row = 0" if "Emp_Id row \<notin> rec_emp ` set (month_records fs ds)"
    using emp_stats_other [OF that, of pf] by (simp add: h zero_stats_def)
  with p0 net show ?thesis by auto
qed


subsection \<open>The scenario evaluated\<close>

lemmas scenario_paths =
  attendance_path_def path_join_def startswith_def ATT_DIR_def EMP_FILE_def DATA_DIR_def

lemma scenario_records:
  "month_records fs0 august_2025 = [att_ann_1, att_bob_1, att_ann_4]"
  by (simp add: month_records_def snapshot_def fs0_def august_2025_def scenario_paths)

lemma scenario_files:
  "filter (\<lambda>dstr. fs0 (attendance_path dstr) \<noteq> None) august_2025 =
     [''2025-08-01'', ''2025-08-04'']"
  by (simp add: fs0_def august_2025_def scenario_paths)

lemma scenario_readable: "readable fs0 august_2025"
  by (simp add: readable_def fs0_def august_2025_def scenario_paths)

lemma scenario_status_ok: "list_all status_ok [att_ann_1, att_bob_1, att_ann_4]"
  by (simp add: status_ok_def att_ann_1_def att_bob_1_def att_ann_4_def)

lemma scenario_roster: "fst (load_employees fs0) = [ann, bob, cy]"
  by (simp add: load_employees_def ensure_dirs_def Let_def fs0_def scenario_paths)

lemma scenario_emps:
  "rec_emp att_ann_1 = PStr ''1''" "rec_emp att_bob_1 = PStr ''2''" "rec_emp att_ann_4 = PStr ''1''"
  "rec_emp ann = PStr ''1''" "rec_emp bob = PStr ''2''" "rec_emp cy = PStr ''3''"
  by (simp_all add: rec_emp_def dict_get_def att_ann_1_def att_bob_1_def att_ann_4_def
      ann_def bob_def cy_def)

lemma scenario_status:
  "status_P att_ann_1" "\<not> status_P att_bob_1" "status_P att_ann_4"
  by (simp_all add: status_P_def att_ann_1_def att_bob_1_def att_ann_4_def)

lemma scenario_overtime:
  "ot_value pf0 att_ann_1 = 2" "ot_value pf0 att_bob_1 = 10" "ot_value pf0 att_ann_4 = 0"
  by (simp_all add: ot_value_def dict_get_def pf0_def att_ann_1_def att_bob_1_def att_ann_4_def)

lemma scenario_stats:
  "emp_stats pf0 [att_ann_1, att_bob_1, att_ann_4] (PStr ''1'') = \<lparr>present = 2, absent = 0, ot = 2\<rparr>"
  "emp_stats pf0 [att_ann_1, att_bob_1, att_ann_4] (PStr ''2'') = \<lparr>present = 0, absent = 1, ot = 10\<rparr>"
  "emp_stats pf0 [att_ann_1, att_bob_1, att_ann_4] (PStr ''3'') = \<lparr>present = 0, absent = 0, ot = 0\<rparr>"
  by (simp_all add: emp_stats_def scenario_emps scenario_status scenario_overtime)

lemma scenario_gather:
  "fst (gather_month_attendance pf0 fs0 2025 8) =
     Inr (merged pf0 Map.empty [att_ann_1, att_bob_1, att_ann_4])"
  using gather_days_ok [of fs0 august_2025 pf0 Map.empty] scenario_readable scenario_status_ok
  by (simp add: gather_month_days [OF august_2025_days] scenario_records)

lemma scenario_month_str: "digits 4 (nat 2025) @ ''-'' @ digits 2 (nat 8) = ''2025-08''"
  by code_simp

lemma scenario_calc_row:
  "calc_row pf0 (merged pf0 Map.empty [att_ann_1, att_bob_1, att_ann_4]) 21 ''2025-08'' ann =
     Inr row_ann"
  "calc_row pf0 (merged pf0 Map.empty [att_ann_1, att_bob_1, att_ann_4]) 21 ''2025-08'' bob =
     Inr row_bob"
  "calc_row pf0 (merged pf0 Map.empty [att_ann_1, att_bob_1, att_ann_4]) 21 ''2025-08'' cy =
     Inr row_cy"
  unfolding calc_row_def Let_def rec_emp_def [symmetric] scenario_emps merged_empty
  by (simp_all add: scenario_emps scenario_stats dict_get_def ann_def bob_def cy_def
      zero_stats_def row_ann_def row_bob_def row_cy_def net_pay_def prorated_def ot_pay_def
      per_hour_def)

lemma scenario_rows:
  "fst (on_calculate pf0 fs0 2025 8 []) = Inr [row_ann, row_bob, row_cy]"
  unfolding on_calculate_ok [OF august_2025_business_days scenario_gather] scenario_month_str
    scenario_roster
  by (simp add: strip_def scenario_calc_row)


subsection \<open>The properties on the scenario\<close>

text \<open>C1 on the scenario: the row of Ann.\<close>

theorem on_calculate_salary_formula_witness:
  "fst (on_calculate pf0 fs0 2025 8 []) = Inr [row_ann, row_bob, row_cy] \<and>
   row_ann \<in> set [row_ann, row_bob, row_cy] \<and> 0 \<le> Base_Salary row_ann \<and>
   (\<exists>w ds e. business_days_in_month 2025 8 = Inr w \<and> month_days_iter 2025 8 = Inr ds \<and>
           e \<in> set (fst (load_employees fs0)) \<and> Emp_Id row_ann = rec_emp e \<and>
           py_float pf0 (dict_get e ''base_salary'' (PNum 0)) = Inr (Base_Salary row_ann) \<and>
           Working_Days row_ann = w \<and>
           Present row_ann = present (emp_stats pf0 (month_records fs0 ds) (Emp_Id row_ann)) \<and>
           Overtime_Hours row_ann = ot (emp_stats pf0 (month_records fs0 ds) (Emp_Id row_ann)) \<and>
           per_hour (Base_Salary row_ann) =
             (if Base_Salary row_ann > 0 then Base_Salary row_ann / 176 else 0) \<and>
           prorated (Base_Salary row_ann) (Present row_ann) w =
             (if w > 0 then Base_Salary row_ann * (real (Present row_ann) / real w) else 0) \<and>
           ot_pay (Base_Salary row_ann) (Overtime_Hours row_ann) =
             per_hour (Base_Salary row_ann) * Overtime_Hours row_ann \<and>
           Net_Pay row_ann =
             max 0 (prorated (Base_Salary row_ann) (Present row_ann) w +
                    ot_pay (Base_Salary row_ann) (Overtime_Hours row_ann)) \<and>
           Net_Pay row_ann =
             max 0 ((if w > 0
                     then Base_Salary row_ann * (real (Present row_ann) / real w) else 0) +
                    (if Base_Salary row_ann > 0 then Base_Salary row_ann / 176 else 0) *
                      Overtime_Hours row_ann)) \<and>
   Base_Salary row_ann = 17600 \<and> Working_Days row_ann = 21 \<and> Present row_ann = 2 \<and>
   Overtime_Hours row_ann = 2 \<and> Net_Pay row_ann = 39400 / 21"
proof -
  have m: "row_ann \<in> set [row_ann, row_bob, row_cy]" by simp
  have b: "0 \<le> Base_Salary row_ann" by (simp add: row_ann_def)
  have v: "Base_Salary row_ann = 17600 \<and> Working_Days row_ann = 21 \<and> Present row_ann = 2 \<and>
   Overtime_Hours row_ann = 2 \<and> Net_Pay row_ann = 39400 / 21"
    by (simp add: row_ann_def)
  from on_calculate_salary_formula [OF scenario_rows m b] scenario_rows m b v
  show ?thesis by blast
qed

text \<open>C3 on the scenario.\<close>

theorem month_aggregation_counts_witness:
  "month_days_iter 2025 8 = Inr august_2025 \<and> readable fs0 august_2025 \<and>
   list_all status_ok (month_records fs0 august_2025) \<and>
   month_records fs0 august_2025 = [att_ann_1, att_bob_1, att_ann_4] \<and>
   fst (gather_month_attendance pf0 fs0 2025 8) =
     Inr (\<lambda>emp. if emp \<in> rec_emp ` set (month_records fs0 august_2025)
                then Some
                  \<lparr>present = length (filter (\<lambda>r. rec_emp r = emp \<and> status_P r)
                                       (month_records fs0 august_2025)),
                   absent = length (filter (\<lambda>r. rec_emp r = emp \<and> \<not> status_P r)
                                      (month_records fs0 august_2025)),
                   ot = sum_list (map (ot_value pf0)
                          (filter (\<lambda>r. rec_emp r = emp) (month_records fs0 august_2025)))\<rparr>
                else None)"
proof -
  have ok: "list_all status_ok (month_records fs0 august_2025)"
    unfolding scenario_records by (rule scenario_status_ok)
  from month_aggregation_counts [OF august_2025_days scenario_readable ok, of pf0]
    august_2025_days scenario_readable ok scenario_records
  show ?thesis by blast
qed

text \<open>C4 on the scenario: 29 days of the month have no file, and Cy has no record.\<close>

theorem missing_days_are_skipped_witness:
  "month_days_iter 2025 8 = Inr august_2025 \<and>
   filter (\<lambda>dstr. fs0 (attendance_path dstr) \<noteq> None) august_2025 =
     [''2025-08-01'', ''2025-08-04''] \<and>
   fst (gather_month_attendance pf0 fs0 2025 8) =
     fst (gather_days pf0 fs0 [''2025-08-01'', ''2025-08-04''] Map.empty) \<and>
   fst (gather_month_attendance pf0 fs0 2025 8) =
     Inr (merged pf0 Map.empty [att_ann_1, att_bob_1, att_ann_4]) \<and>
   PStr ''3'' \<notin> rec_emp ` set (month_records fs0 august_2025) \<and>
   merged pf0 Map.empty [att_ann_1, att_bob_1, att_ann_4] (PStr ''3'') = None \<and>
   fst (on_calculate pf0 fs0 2025 8 []) = Inr [row_ann, row_bob, row_cy] \<and>
   row_cy \<in> set [row_ann, row_bob, row_cy] \<and> Emp_Id row_cy = PStr ''3'' \<and>
   Present row_cy = 0 \<and> Absent row_cy = 0 \<and> Overtime_Hours row_cy = 0"
proof -
  note th = missing_days_are_skipped [OF august_2025_days, of pf0 fs0 "[]"]
  have no: "PStr ''3'' \<notin> rec_emp ` set (month_records fs0 august_2025)"
    by (simp add: scenario_records scenario_emps)
  have id: "Emp_Id row_cy = PStr ''3''" by (simp add: row_cy_def)
  have m: "row_cy \<in> set [row_ann, row_bob, row_cy]" by simp
  have a: "fst (gather_month_attendance pf0 fs0 2025 8) =
     fst (gather_days pf0 fs0 [''2025-08-01'', ''2025-08-04''] Map.empty)"
    using th [THEN conjunct1] unfolding scenario_files .
  have b: "merged pf0 Map.empty [att_ann_1, att_bob_1, att_ann_4] (PStr ''3'') = None"
    using th [THEN conjunct2, THEN conjunct1] scenario_gather no by blast
  have c: "Present row_cy = 0 \<and> Absent row_cy = 0 \<and> Overtime_Hours row_cy = 0"
    using th [THEN conjunct2, THEN conjunct2] scenario_rows m no id by metis
  from august_2025_days scenario_files a scenario_gather no b scenario_rows m id c
  show ?thesis by blast
qed

text \<open>C5 (as the code has it) on the scenario: the rows of Bob and Cy.\<close>

theorem absent_employee_net_pay_witness:
  "fst (on_calculate pf0 fs0 2025 8 []) = Inr [row_ann, row_bob, row_cy] \<and>
   month_days_iter 2025 8 = Inr august_2025 \<and>
   filter (\<lambda>r. rec_emp r = Emp_Id row_bob \<and> status_P r) (month_records fs0 august_2025) = [] \<and>
   filter (\<lambda>r. rec_emp r = Emp_Id row_cy) (month_records fs0 august_2025) = [] \<and>
   Present row_bob = 0 \<and>
   Net_Pay row_bob = max 0 (per_hour (Base_Salary row_bob) * Overtime_Hours row_bob) \<and>
   Present row_cy = 0 \<and> Overtime_Hours row_cy = 0 \<and> Net_Pay row_cy = 0"
proof -
  have mb: "row_bob \<in> set [row_ann, row_bob, row_cy]"
    and mc: "row_cy \<in> set [row_ann, row_bob, row_cy]" by simp_all
  have fb: "filter (\<lambda>r. rec_emp r = Emp_Id row_bob \<and> status_P r)
      (month_records fs0 august_2025) = []"
    by (simp add: scenario_records scenario_emps scenario_status row_bob_def)
  have fc: "filter (\<lambda>r. rec_emp r = Emp_Id row_cy) (month_records fs0 august_2025) = []"
    by (simp add: scenario_records scenario_emps row_cy_def)
  have hb: "\<forall>r \<in> set (month_records fs0 august_2025).
      rec_emp r = Emp_Id row_bob \<longrightarrow> \<not> status_P r"
    using fb by (auto simp: filter_empty_conv)
  have hc: "\<forall>r \<in> set (month_records fs0 august_2025).
      rec_emp r = Emp_Id row_cy \<longrightarrow> \<not> status_P r"
    using fc by (auto simp: filter_empty_conv)
  have oc: "Overtime_Hours row_cy = 0" by (simp add: row_cy_def)
  note b = absent_employee_net_pay [OF scenario_rows mb august_2025_days hb]
  note c = absent_employee_net_pay [OF scenario_rows mc august_2025_days hc]
  from b c oc scenario_rows august_2025_days fb fc show ?thesis by blast
qed

text \<open>
  C5 as stated fails: Bob has one record in the month, with status \<^verbatim>\<open>A\<close> and ten hours
  of overtime, and his net pay is 1000.
\<close>

theorem absent_with_overtime_is_paid:
  "fst (on_calculate pf0 fs0 2025 8 []) = Inr [row_ann, row_bob, row_cy] \<and>
   filter (\<lambda>r. rec_emp r = Emp_Id row_bob) (month_records fs0 august_2025) = [att_bob_1] \<and>
   \<not> status_P att_bob_1 \<and> Present row_bob = 0 \<and> Absent row_bob = 1 \<and>
   Net_Pay row_bob = 1000 \<and> Net_Pay row_bob \<noteq> 0"
  by (simp add: scenario_rows scenario_records scenario_emps scenario_status row_bob_def)


subsection \<open>Adding an employee\<close>

lemma read_form_emp_id:
  "read_form pf f = Inr rec \<Longrightarrow> rec ''emp_id'' = Some (PStr (strip (emp_id_var f)))"
  by (auto simp: read_form_def Let_def split: if_splits)

lemma any_same_emp_id_dup:
  assumes "\<exists>r \<in> set records. r ''emp_id'' = Some v" and "rec ''emp_id'' = Some v"
  shows "any_same_emp_id records rec = Inr True \<or> any_same_emp_id records rec = Inl KeyError"
  using assms(1)
proof (induction records)
  case Nil
  then show ?case by simp
next
  case (Cons r rs)
  show ?case
  proof (cases "r ''emp_id''")
    case None
    then show ?thesis by (simp add: dict_index_def)
  next
    case (Some a)
    show ?thesis
    proof (cases "a = v")
      case True
      with Some assms(2) show ?thesis by (simp add: dict_index_def)
    next
      case False
      with Some Cons.prems have "\<exists>r \<in> set rs. r ''emp_id'' = Some v" by auto
      from Cons.IH [OF this] Some False assms(2) show ?thesis
        by (simp add: dict_index_def)
    qed
  qed
qed

lemma any_same_emp_id_found:
  assumes "\<exists>r \<in> set records. r ''emp_id'' = Some v" and "rec ''emp_id'' = Some v"
    and "\<forall>r \<in> set records. r ''emp_id'' \<noteq> None"
  shows "any_same_emp_id records rec = Inr True"
  using assms(1,3)
proof (induction records)
  case Nil
  then show ?case by simp
next
  case (Cons r rs)
  from Cons.prems(2) obtain a where a: "r ''emp_id'' = Some a" by auto
  show ?case
  proof (cases "a = v")
    case True
    with a assms(2) show ?thesis by (simp add: dict_index_def)
  next
    case False
    with a Cons.prems have "\<exists>r \<in> set rs. r ''emp_id'' = Some v" "\<forall>r \<in> set rs. r ''emp_id'' \<noteq> None"
      by auto
    from Cons.IH [OF this] a False assms(2) show ?thesis
      by (simp add: dict_index_def)
  qed
qed

text \<open>
  C8. When the employee id of the form (stripped, as \<^verbatim>\<open>_read_form\<close> reads it) is the
  \<^verbatim>\<open>emp_id\<close> of a record of the roster, \<^verbatim>\<open>on_save_new\<close> fails and leaves the roster in
  memory and the file system as they were; when the form is valid and every record of
  the roster has an \<^verbatim>\<open>emp_id\<close>, the failure is the Duplicate error.
\<close>

theorem on_save_new_duplicate:
  assumes "\<exists>r \<in> set records. r ''emp_id'' = Some (PStr (strip (emp_id_var f)))"
  shows "failed (fst (on_save_new pf (records, fs) f)) \<and>
         snd (on_save_new pf (records, fs) f) = (records, fs) \<and>
         (\<forall>rec. read_form pf f = Inr rec \<longrightarrow> (\<forall>r \<in> set records. r ''emp_id'' \<noteq> None) \<longrightarrow>
            fst (on_save_new pf (records, fs) f) =
              ShowError ''Duplicate'' ''Employee ID already exists.'')"
proof (cases "read_form pf f")
  case (Inl msg)
  then show ?thesis by (simp add: on_save_new_def)
next
  case (Inr rec)
  note id = read_form_emp_id [OF Inr]
  from any_same_emp_id_dup [of records "PStr (strip (emp_id_var f))" rec, OF assms id]
  have a: "failed (fst (on_save_new pf (records, fs) f)) \<and>
         snd (on_save_new pf (records, fs) f) = (records, fs)"
    by (auto simp: on_save_new_def Inr)
  have "fst (on_save_new pf (records, fs) f) =
      ShowError ''Duplicate'' ''Employee ID already exists.''"
    if "\<forall>r \<in> set records. r ''emp_id'' \<noteq> None"
    using any_same_emp_id_found [of records "PStr (strip (emp_id_var f))" rec, OF assms id that] by (simp add: on_save_new_def Inr)
  with a show ?thesis by blast
qed

lemma form_dup_read:
  "read_form pf0 form_dup =
     Inr [''emp_id'' \<mapsto> PStr ''2'', ''name'' \<mapsto> PStr ''Bo'', ''department'' \<mapsto> PStr [],
          ''role'' \<mapsto> PStr [], ''base_salary'' \<mapsto> PStr ''17600'',
          ''join_date'' \<mapsto> PStr ''2025-08-19'', ''phone'' \<mapsto> PStr [],
          ''email'' \<mapsto> PStr ''bo@example.org'']"
proof -
  have s: "strip '' 2 '' = ''2''" "strip ''Bo'' = ''Bo''" "strip ''17600'' = ''17600''"
    "strip ''2025-08-19'' = ''2025-08-19''" "strip [] = []"
    "strip ''bo@example.org'' = ''bo@example.org''"
    by (simp_all add: strip_def is_space_def)
  have d: "isdigit ''2''" by (simp add: isdigit_def is_digit_def)
  have v: "valid_date ''2025-08-19''" by code_simp
  have e: "EMAIL_RE_match ''bo@example.org''" by code_simp
  show ?thesis
    by (simp add: read_form_def form_dup_def Let_def s d v e pf0_def)
qed

text \<open>C8 on the scenario: the form carries the id of Bob, with blanks around it.\<close>

theorem on_save_new_duplicate_witness:
  "bob \<in> set [ann, bob, cy] \<and> bob ''emp_id'' = Some (PStr (strip (emp_id_var form_dup))) \<and>
   failed (fst (on_save_new pf0 ([ann, bob, cy], fs0) form_dup)) \<and>
   snd (on_save_new pf0 ([ann, bob, cy], fs0) form_dup) = ([ann, bob, cy], fs0) \<and>
   fst (on_save_new pf0 ([ann, bob, cy], fs0) form_dup) =
     ShowError ''Duplicate'' ''Employee ID already exists.''"
proof -
  have id: "bob ''emp_id'' = Some (PStr (strip (emp_id_var form_dup)))"
    by (simp add: bob_def form_dup_def strip_def is_space_def)
  then have ex: "\<exists>r \<in> set [ann, bob, cy]. r ''emp_id'' = Some (PStr (strip (emp_id_var form_dup)))"
    by simp
  have keys: "\<forall>r \<in> set [ann, bob, cy]. r ''emp_id'' \<noteq> None"
    by (simp add: ann_def bob_def cy_def)
  from on_save_new_duplicate [OF ex, of pf0 fs0] form_dup_read keys id
  show ?thesis by simp
qed

text \<open>With a fresh id the same form is saved: the check does not reject everything.\<close>

lemma on_save_new_fresh:
  "fst (on_save_new pf0 ([ann, bob, cy], fs0) form_new) = ShowInfo ''Saved'' ''Employee saved.'' \<and>
   length (fst (snd (on_save_new pf0 ([ann, bob, cy], fs0) form_new))) = 4"
proof -
  have s: "strip ''4'' = ''4''" "strip ''Bo'' = ''Bo''" "strip ''17600'' = ''17600''"
    "strip ''2025-08-19'' = ''2025-08-19''" "strip [] = []"
    "strip ''bo@example.org'' = ''bo@example.org''"
    by (simp_all add: strip_def is_space_def)
  have d: "isdigit ''4''" by (simp add: isdigit_def is_digit_def)
  have v: "valid_date ''2025-08-19''" by code_simp
  have e: "EMAIL_RE_match ''bo@example.org''" by code_simp
  have r: "read_form pf0 form_new =
     Inr [''emp_id'' \<mapsto> PStr ''4'', ''name'' \<mapsto> PStr ''Bo'', ''department'' \<mapsto> PStr [],
          ''role'' \<mapsto> PStr [], ''base_salary'' \<mapsto> PStr ''17600'',
          ''join_date'' \<mapsto> PStr ''2025-08-19'', ''phone'' \<mapsto> PStr [],
          ''email'' \<mapsto> PStr ''bo@example.org'']"
    by (simp add: read_form_def form_new_def form_dup_def Let_def s d v e pf0_def)
  show ?thesis
    by (simp add: on_save_new_def r dict_index_def ann_def bob_def cy_def pf0_def Let_def)
qed


subsection \<open>Loading a day for editing\<close>

lemma find_snoc:
  "find P (xs @ [x]) =
     (case find P xs of None \<Rightarrow> (if P x then Some x else None) | Some y \<Rightarrow> Some y)"
  by (induction xs) simp_all

lemma saved_for_Cons:
  "saved_for (r # rs) k =
     (case saved_for rs k of
        None \<Rightarrow> (if r ''emp_id'' = Some k then Some r else None)
      | Some y \<Rightarrow> Some y)"
  by (simp add: saved_for_def find_snoc)

text \<open>The dictionary comprehension keeps, for every key, the record saved last.\<close>

lemma build_existing_ok:
  assumes "\<forall>r \<in> set saved. r ''emp_id'' \<noteq> None"
  shows "build_existing saved ex =
           Inr (\<lambda>k. case saved_for saved k of None \<Rightarrow> ex k | Some r \<Rightarrow> Some r)"
  using assms
proof (induction saved arbitrary: ex)
  case Nil
  then show ?case by (simp add: saved_for_def)
next
  case (Cons r rs)
  from Cons.prems obtain a where a: "r ''emp_id'' = Some a" by auto
  from Cons.prems have rs: "\<forall>r \<in> set rs. r ''emp_id'' \<noteq> None" by simp
  have "build_existing (r # rs) ex = build_existing rs (ex(a \<mapsto> r))"
    by (simp add: dict_index_def a)
  also have "\<dots> = Inr (\<lambda>k. case saved_for rs k of None \<Rightarrow> (ex(a \<mapsto> r)) k | Some x \<Rightarrow> Some x)"
    by (rule Cons.IH [OF rs])
  also have "(\<lambda>k. case saved_for rs k of None \<Rightarrow> (ex(a \<mapsto> r)) k | Some x \<Rightarrow> Some x) =
      (\<lambda>k. case saved_for (r # rs) k of None \<Rightarrow> ex k | Some x \<Rightarrow> Some x)"
    by (rule ext) (auto simp: saved_for_Cons a split: option.splits)
  finally show ?case .
qed

text \<open>
  C10. When the date is valid, the file of the day parses (or is missing) and every
  saved record has an \<^verbatim>\<open>emp_id\<close>, \<^verbatim>\<open>on_load\<close> replaces the rows of the tab by one row
  per entry of the roster, in roster order: the row has the id and name of the entry,
  and the status, ip and overtime of the record saved (last) for that id in the day's
  snapshot, with status \<^verbatim>\<open>A\<close>, the host address and overtime 0 where there is no saved
  record (or the saved record lacks the field). A saved record whose id is not in the
  roster is in no row.
\<close>

theorem on_load_merges_roster:
  assumes "valid_date (strip date_var)"
    and "fs (attendance_path (strip date_var)) \<noteq> Some Unparsable"
    and "\<forall>r \<in> set (snapshot fs (strip date_var)). r ''emp_id'' \<noteq> None"
  shows "on_load host_ip (rows, fs) date_var =
           (ShowInfo ''Loaded'' (''Attendance loaded for '' @ strip date_var @ ''.''),
            map (\<lambda>e. [''Emp_Id'' \<mapsto> rec_emp e,
                      ''Name'' \<mapsto> dict_get e ''name'' (PStr []),
                      ''Status (P/A)'' \<mapsto>
                        (case saved_for (snapshot fs (strip date_var)) (rec_emp e) of
                           None \<Rightarrow> PStr ''A'' | Some r \<Rightarrow> dict_get r ''status'' (PStr ''A'')),
                      ''IP'' \<mapsto>
                        (case saved_for (snapshot fs (strip date_var)) (rec_emp e) of
                           None \<Rightarrow> PStr host_ip | Some r \<Rightarrow> dict_get r ''ip'' (PStr host_ip)),
                      ''Overtime Hours'' \<mapsto>
                        (case saved_for (snapshot fs (strip date_var)) (rec_emp e) of
                           None \<Rightarrow> PNum 0 | Some r \<Rightarrow> dict_get r ''overtime'' (PNum 0))])
              (fst (load_employees fs)),
            ensure_dirs fs) \<and>
         length (fst (snd (on_load host_ip (rows, fs) date_var))) =
           length (fst (load_employees fs)) \<and>
         (\<forall>r \<in> set (snapshot fs (strip date_var)).
            rec_emp r \<notin> rec_emp ` set (fst (load_employees fs)) \<longrightarrow>
            (\<forall>row \<in> set (fst (snd (on_load host_ip (rows, fs) date_var))).
               row ''Emp_Id'' \<noteq> Some (rec_emp r)))"
proof -
  let ?saved = "snapshot fs (strip date_var)"
  let ?ex = "\<lambda>k. case saved_for ?saved k of None \<Rightarrow> None | Some r \<Rightarrow> Some r"
  have la: "load_attendance fs (strip date_var) = (Inr ?saved, ensure_dirs fs)"
    using assms(2) by (simp add: load_attendance_eq)
  have be: "build_existing ?saved Map.empty = Inr ?ex"
    by (rule build_existing_ok [OF assms(3)])
  have le: "load_employees (ensure_dirs fs) = (fst (load_employees fs), ensure_dirs fs)"
    by (rule prod_eqI) simp_all
  have row: "merge_row host_ip ?ex e =
      [''Emp_Id'' \<mapsto> rec_emp e,
       ''Name'' \<mapsto> dict_get e ''name'' (PStr []),
       ''Status (P/A)'' \<mapsto>
         (case saved_for ?saved (rec_emp e) of
            None \<Rightarrow> PStr ''A'' | Some r \<Rightarrow> dict_get r ''status'' (PStr ''A'')),
       ''IP'' \<mapsto>
         (case saved_for ?saved (rec_emp e) of
            None \<Rightarrow> PStr host_ip | Some r \<Rightarrow> dict_get r ''ip'' (PStr host_ip)),
       ''Overtime Hours'' \<mapsto>
         (case saved_for ?saved (rec_emp e) of
            None \<Rightarrow> PNum 0 | Some r \<Rightarrow> dict_get r ''overtime'' (PNum 0))]" for e
    unfolding merge_row_def Let_def rec_emp_def
    by (cases "saved_for ?saved (dict_get e ''emp_id'' (PStr []))") (simp_all add: dict_get_def)
  have main: "on_load host_ip (rows, fs) date_var =
      (ShowInfo ''Loaded'' (''Attendance loaded for '' @ strip date_var @ ''.''),
       map (merge_row host_ip ?ex) (fst (load_employees fs)), ensure_dirs fs)"
    using assms(1) by (simp add: on_load_def Let_def la be le)
  have ids: "row ''Emp_Id'' \<noteq> Some k"
    if "k \<notin> rec_emp ` set (fst (load_employees fs))"
      and "row \<in> set (map (merge_row host_ip ?ex) (fst (load_employees fs)))" for k row
    using that by (auto simp: row)
  show ?thesis
    unfolding main using ids by (simp add: row)
qed


lemma fs1_snapshot: "snapshot fs1 ''2025-08-19'' = [att_ann_1, att_old]"
  by (simp add: snapshot_def fs1_def scenario_paths)

lemma fs1_roster: "fst (load_employees fs1) = [ann, bob]"
  by (simp add: load_employees_def ensure_dirs_def Let_def fs1_def scenario_paths)

lemma fs1_saved_for:
  "saved_for [att_ann_1, att_old] (PStr ''1'') = Some att_ann_1"
  "saved_for [att_ann_1, att_old] (PStr ''2'') = None"
  by (simp_all add: saved_for_def att_ann_1_def att_old_def)

text \<open>
  C10 on the scenario: the day holds a record of Ann and one of a former employee; the
  loaded rows are those of Ann, carried forward, and of Bob, with the defaults.
\<close>

theorem on_load_merges_roster_witness:
  "valid_date (strip '' 2025-08-19'') \<and>
   fs1 (attendance_path (strip '' 2025-08-19'')) \<noteq> Some Unparsable \<and>
   list_all (\<lambda>r. r ''emp_id'' \<noteq> None) (snapshot fs1 (strip '' 2025-08-19'')) \<and>
   on_load ''192.168.0.7'' ([], fs1) '' 2025-08-19'' =
     (ShowInfo ''Loaded'' ''Attendance loaded for 2025-08-19.'',
      [[''Emp_Id'' \<mapsto> PStr ''1'', ''Name'' \<mapsto> PStr ''Ann'', ''Status (P/A)'' \<mapsto> PStr ''P'',
        ''IP'' \<mapsto> PStr ''127.0.0.1'', ''Overtime Hours'' \<mapsto> PNum 2],
       [''Emp_Id'' \<mapsto> PStr ''2'', ''Name'' \<mapsto> PStr ''Bob'', ''Status (P/A)'' \<mapsto> PStr ''A'',
        ''IP'' \<mapsto> PStr ''192.168.0.7'', ''Overtime Hours'' \<mapsto> PNum 0]],
      ensure_dirs fs1) \<and>
   length (fst (snd (on_load ''192.168.0.7'' ([], fs1) '' 2025-08-19''))) = 2 \<and>
   att_old \<in> set (snapshot fs1 (strip '' 2025-08-19'')) \<and>
   rec_emp att_old \<notin> rec_emp ` set (fst (load_employees fs1)) \<and>
   list_all (\<lambda>row. row ''Emp_Id'' \<noteq> Some (rec_emp att_old))
     (fst (snd (on_load ''192.168.0.7'' ([], fs1) '' 2025-08-19'')))"
proof -
  have s: "strip '' 2025-08-19'' = ''2025-08-19''"
    by (simp add: strip_def is_space_def)
  have v: "valid_date (strip '' 2025-08-19'')"
    unfolding s by code_simp
  have p: "fs1 (attendance_path (strip '' 2025-08-19'')) \<noteq> Some Unparsable"
    unfolding s by (simp add: fs1_def scenario_paths)
  have k: "\<forall>r \<in> set (snapshot fs1 (strip '' 2025-08-19'')). r ''emp_id'' \<noteq> None"
    unfolding s fs1_snapshot by (simp add: att_ann_1_def att_old_def)
  have old: "rec_emp att_old = PStr ''9''"
    by (simp add: rec_emp_def dict_get_def att_old_def)
  have m: "att_old \<in> set (snapshot fs1 (strip '' 2025-08-19''))"
    unfolding s fs1_snapshot by simp
  have n: "rec_emp att_old \<notin> rec_emp ` set (fst (load_employees fs1))"
    by (simp add: fs1_roster old scenario_emps)
  note th = on_load_merges_roster [OF v p k, of "''192.168.0.7''" "[]"]
  have a: "on_load ''192.168.0.7'' ([], fs1) '' 2025-08-19'' =
     (ShowInfo ''Loaded'' ''Attendance loaded for 2025-08-19.'',
      [[''Emp_Id'' \<mapsto> PStr ''1'', ''Name'' \<mapsto> PStr ''Ann'', ''Status (P/A)'' \<mapsto> PStr ''P'',
        ''IP'' \<mapsto> PStr ''127.0.0.1'', ''Overtime Hours'' \<mapsto> PNum 2],
       [''Emp_Id'' \<mapsto> PStr ''2'', ''Name'' \<mapsto> PStr ''Bob'', ''Status (P/A)'' \<mapsto> PStr ''A'',
        ''IP'' \<mapsto> PStr ''192.168.0.7'', ''Overtime Hours'' \<mapsto> PNum 0]],
      ensure_dirs fs1)"
    unfolding th [THEN conjunct1] s fs1_snapshot fs1_roster
    by (simp add: scenario_emps fs1_saved_for)
      (simp add: dict_get_def ann_def bob_def att_ann_1_def)
  have b: "length (fst (snd (on_load ''192.168.0.7'' ([], fs1) '' 2025-08-19''))) = 2"
    using th [THEN conjunct2, THEN conjunct1] by (simp add: fs1_roster)
  have c: "\<forall>row \<in> set (fst (snd (on_load ''192.168.0.7'' ([], fs1) '' 2025-08-19''))).
      row ''Emp_Id'' \<noteq> Some (rec_emp att_old)"
    using th [THEN conjunct2, THEN conjunct2] m n by blast
  from v p k a b m n c show ?thesis
    by (simp only: list_all_iff) blast
qed


end
